theory Spec2Isabelle
  imports Main "HOL-Library.Word" "HOL-Library.Multiset" "HOL-Library.Sublist"
begin

unbundle bit_operations_syntax

section \<open>JavaScript strings\<close>

text \<open>
  A JavaScript string is a sequence of UTF-16 code units; \<open>length\<close>, \<open>substring\<close>,
  \<open>split\<close> and \<open>trim\<close> all count code units. A string literal of the source is
  written \<open>lit ''...''\<close>: every character of the literals used here is ASCII, whose
  code unit is its ASCII code.
\<close>

type_synonym jschar = "16 word"
type_synonym jsstring = "jschar list"

definition lit :: "string \<Rightarrow> jsstring" where
  "lit s = map of_char s"

text \<open>
  \<open>String.prototype.trim\<close> removes WhiteSpace and LineTerminator code points from both
  ends (ECMA-262, 22.1.3.32): TAB, LF, VT, FF, CR, SP, NBSP, the Unicode space
  separators, LS, PS and the byte-order mark. The regular expression class \<open>\s\<close> is
  the same set.
\<close>

definition isWhiteSpace :: "jschar \<Rightarrow> bool" where
  "isWhiteSpace c \<longleftrightarrow>
     c \<in> {0x09, 0x0A, 0x0B, 0x0C, 0x0D, 0x20, 0xA0, 0x1680,
           0x2000, 0x2001, 0x2002, 0x2003, 0x2004, 0x2005, 0x2006, 0x2007, 0x2008,
           0x2009, 0x200A, 0x2028, 0x2029, 0x202F, 0x205F, 0x3000, 0xFEFF}"

definition trimStart :: "jsstring \<Rightarrow> jsstring" where
  "trimStart s = dropWhile isWhiteSpace s"

definition trimEnd :: "jsstring \<Rightarrow> jsstring" where
  "trimEnd s = rev (dropWhile isWhiteSpace (rev s))"

definition trim :: "jsstring \<Rightarrow> jsstring" where
  "trim s = trimEnd (trimStart s)"

text \<open>
  \<open>s.split(sep)\<close> for a one-character separator: the pieces between the separators,
  in order. The result is never empty (\<open>''.split(',')\<close> is \<open>['']\<close>).
\<close>

fun split :: "jschar \<Rightarrow> jsstring \<Rightarrow> jsstring list" where
  "split sep [] = [[]]"
| "split sep (c # cs) =
     (if c = sep then [] # split sep cs
      else (case split sep cs of
              [] \<Rightarrow> [[c]]
            | p # ps \<Rightarrow> (c # p) # ps))"

text \<open>\<open>s.substring(0, n)\<close> is \<open>take n s\<close>; \<open>s.slice(0, n)\<close> on an array likewise.\<close>

definition newline :: jschar where
  "newline = 0x0A"

definition comma :: jschar where
  "comma = 0x2C"

section \<open>Title extraction (App.tsx)\<close>

text \<open>
  \<^verbatim>\<open>
  const extractTitle = (content: string): string => {
    const firstLine = content.split('\n')[0].trim();
    if (firstLine) {
      return firstLine.length > 50 ? firstLine.substring(0, 50) + '...' : firstLine;
    }
    return '';
  };
  \<close>
\<close>

definition extractTitle :: "jsstring \<Rightarrow> jsstring" where
  "extractTitle content =
     (let firstLine = trim (hd (split newline content))
      in if firstLine \<noteq> []
         then (if length firstLine > 50 then take 50 firstLine @ lit ''...'' else firstLine)
         else [])"

text \<open>
  The rule as the specification words it: the first line of the content is what
  precedes the first line feed; the title is that line trimmed, cut to its first 50
  code units with a trailing \<open>...\<close> when it is longer than 50.
\<close>

definition firstLineOf :: "jsstring \<Rightarrow> jsstring" where
  "firstLineOf s = takeWhile (\<lambda>c. c \<noteq> newline) s"

section \<open>Tag suggestion (services/llm.ts)\<close>

text \<open>
  The parsing step of \<open>suggestTags\<close>, applied to the text the endpoint returned:
  \<^verbatim>\<open>
  return response
    .split(',')
    .map(tag => tag.trim())
    .filter(tag => tag.length > 0 && tag.length < 30)
    .slice(0, 5);
  \<close>
\<close>

definition parseTags :: "jsstring \<Rightarrow> jsstring list" where
  "parseTags response =
     take 5 (filter (\<lambda>tag. length tag > 0 \<and> length tag < 30)
               (map trim (split comma response)))"

section \<open>Numbers as text\<close>

text \<open>
  Template literals render a number in decimal. Counts, HTTP statuses, versions and
  timestamps are integers here, so the decimal digits are all there is to render.
\<close>

definition digitChar :: "nat \<Rightarrow> jschar" where
  "digitChar d = of_nat (48 + d)"

fun showNat :: "nat \<Rightarrow> jsstring" where
  "showNat n = (if n < 10 then [digitChar n] else showNat (n div 10) @ [digitChar (n mod 10)])"

declare showNat.simps [simp del]

definition showInt :: "int \<Rightarrow> jsstring" where
  "showInt i = (if i < 0 then lit ''-'' @ showNat (nat (- i)) else showNat (nat i))"

section \<open>JSON values\<close>

text \<open>
  What \<open>JSON.parse\<close> returns and \<open>JSON.stringify\<close> takes. An object is its list of
  key/value pairs; a property is read by key. Numbers are integers in this model
  (timestamps from \<open>Date.now()\<close>, versions and counts are).
\<close>

datatype json =
    JNull
  | JBool bool
  | JNum int
  | JStr jsstring
  | JArr "json list"
  | JObj "(jsstring \<times> json) list"

text \<open>\<open>x.k\<close> on a parsed value: \<open>None\<close> is \<open>undefined\<close>.\<close>

fun field :: "json \<Rightarrow> string \<Rightarrow> json option" where
  "field (JObj kvs) k = map_of kvs (lit k)"
| "field _ k = None"

datatype jstype = TUndefined | TObject | TBoolean | TNumber | TString

fun typeof :: "json option \<Rightarrow> jstype" where
  "typeof None = TUndefined"
| "typeof (Some JNull) = TObject"
| "typeof (Some (JBool _)) = TBoolean"
| "typeof (Some (JNum _)) = TNumber"
| "typeof (Some (JStr _)) = TString"
| "typeof (Some (JArr _)) = TObject"
| "typeof (Some (JObj _)) = TObject"

fun isArray :: "json option \<Rightarrow> bool" where
  "isArray (Some (JArr _)) = True"
| "isArray _ = False"

section \<open>Notes (types.ts)\<close>

datatype SubjectType = General | Math | Chemistry | Code | Language

record AIMetadata =
  md_summary :: "jsstring option"
  lastAnalyzed :: "int option"

text \<open>
  The insight bundle. Its \<open>summary\<close>, \<open>definitions\<close>, \<open>additionalContext\<close> and
  \<open>studyQuestions\<close> are whatever JSON the endpoint put under those keys: the
  orchestrator copies them without looking inside.
\<close>

record AIInsights =
  summary :: json
  definitions :: "json list"
  additionalContext :: json
  studyQuestions :: "json list"
  generatedAt :: int
  contentHash :: jsstring

text \<open>
  A note as the registry holds it. \<open>version\<close>, \<open>tags\<close> and \<open>subjectType\<close> are
  declared mandatory in \<open>types.ts\<close>, but records written by older schema versions
  and imported files may lack them, and the code reads each of them through
  \<open>x || default\<close>; \<open>None\<close> is the missing property.
\<close>

record Note =
  note_id :: jsstring
  title :: jsstring
  content :: jsstring
  updatedAt :: int
  version :: "int option"
  tags :: "jsstring list option"
  subjectType :: "SubjectType option"
  aiMetadata :: "AIMetadata option"
  aiInsights :: "AIInsights option"

text \<open>
  \<open>n || d\<close> on an optional number: \<open>undefined\<close> and \<open>0\<close> are falsy. \<open>a || d\<close> on an
  optional array or subject name: only \<open>undefined\<close> is falsy.
\<close>

fun numOr :: "int option \<Rightarrow> int \<Rightarrow> int" where
  "numOr None d = d"
| "numOr (Some n) d = (if n = 0 then d else n)"

fun valOr :: "'a option \<Rightarrow> 'a \<Rightarrow> 'a" where
  "valOr None d = d"
| "valOr (Some x) d = x"

text \<open>\<open>s || d\<close> on an optional string: \<open>undefined\<close> and \<open>''\<close> are falsy.\<close>

fun strOr :: "jsstring option \<Rightarrow> jsstring \<Rightarrow> jsstring" where
  "strOr None d = d"
| "strOr (Some s) d = (if s = [] then d else s)"

text \<open>
  Numbers are IEEE doubles. The integers of this model stand for the doubles that are
  integers; \<open>x + 1\<close> on such a double is the next integer from \<open>-2^53\<close> up to
  \<open>2^53 - 1\<close>. Outside that range the sum lies half way between two doubles or
  nearer to \<open>x\<close>, and rounding to nearest, ties to even, gives \<open>x + 2\<close> where \<open>x\<close>
  is at most \<open>2^54\<close> in size and no multiple of 4, and \<open>x\<close> itself everywhere else: at
  \<open>2^53\<close> adding 1 changes nothing.
\<close>

definition plusOne :: "int \<Rightarrow> int" where
  "plusOne x =
     (if - (2 ^ 53) \<le> x \<and> x < 2 ^ 53 then x + 1
      else if \<bar>x\<bar> \<le> 2 ^ 54 \<and> x mod 4 \<noteq> 0 then x + 2
      else x)"

section \<open>Local store (db/idb.ts, db/operations.ts)\<close>

text \<open>
  \<open>calculateSize\<close> is \<open>new Blob([content]).size\<close>: the length of the UTF-8 encoding.
  A surrogate pair encodes one code point in four bytes; a lone surrogate is replaced
  by U+FFFD, three bytes.
\<close>

definition isHighSurrogate :: "jschar \<Rightarrow> bool" where
  "isHighSurrogate c \<longleftrightarrow> 0xD800 \<le> c \<and> c \<le> 0xDBFF"

definition isLowSurrogate :: "jschar \<Rightarrow> bool" where
  "isLowSurrogate c \<longleftrightarrow> 0xDC00 \<le> c \<and> c \<le> 0xDFFF"

fun calculateSize :: "jsstring \<Rightarrow> nat" where
  "calculateSize [] = 0"
| "calculateSize [c] = (if c < 0x80 then 1 else if c < 0x800 then 2 else 3)"
| "calculateSize (c # d # cs) =
     (if isHighSurrogate c \<and> isLowSurrogate d then 4 + calculateSize cs
      else (if c < 0x80 then 1 else if c < 0x800 then 2 else 3) + calculateSize (d # cs))"

record NoteRecord = Note +
  sizeBytes :: nat

type_synonym store = "jsstring \<rightharpoonup> NoteRecord"

text \<open>
  Any storage operation may fail (quota, corruption); the operations log and rethrow.
  Whether the database accepts an operation is an input of the model: \<open>ok\<close>.
\<close>

datatype dbError = DbError

definition toRecord :: "Note \<Rightarrow> NoteRecord" where
  "toRecord n =
     \<lparr>note_id = note_id n, title = title n, content = content n, updatedAt = updatedAt n,
      version = version n, tags = tags n, subjectType = subjectType n,
      aiMetadata = aiMetadata n, aiInsights = aiInsights n,
      sizeBytes = calculateSize (content n)\<rparr>"

text \<open>
  \<^verbatim>\<open>
  export const saveNote = async (note: Note): Promise<void> => {
      const size = calculateSize(note.content);
      // Increment version on every save
      const noteWithVersion: Note = {
        ...note,
        tags: note.tags || [],
        subjectType: note.subjectType || 'general',
        version: (note.version || 0) + 1,
      };
      const noteRecord: NoteRecord = { ...noteWithVersion, size };
      await db.put(STORE_NAME, noteRecord);
  \<close>
\<close>

definition saveNote :: "bool \<Rightarrow> Note \<Rightarrow> store \<Rightarrow> dbError + store" where
  "saveNote ok note db =
     (let noteWithVersion = note\<lparr>
            tags := Some (valOr (tags note) []),
            subjectType := Some (valOr (subjectType note) General),
            version := Some (plusOne (numOr (version note) 0))\<rparr>
      in if ok then Inr (db(note_id note \<mapsto> toRecord noteWithVersion)) else Inl DbError)"

text \<open>
  \<open>saveNotes\<close> writes every note in one transaction, with \<open>version: note.version || 1\<close>;
  a failure aborts the transaction, so nothing of it is stored.
\<close>

definition withDefaults :: "Note \<Rightarrow> Note" where
  "withDefaults note = note\<lparr>
      tags := Some (valOr (tags note) []),
      subjectType := Some (valOr (subjectType note) General),
      version := Some (numOr (version note) 1)\<rparr>"

fun putAll :: "Note list \<Rightarrow> store \<Rightarrow> store" where
  "putAll [] db = db"
| "putAll (n # ns) db = putAll ns (db(note_id n \<mapsto> toRecord (withDefaults n)))"

definition saveNotes :: "bool \<Rightarrow> Note list \<Rightarrow> store \<Rightarrow> dbError + store" where
  "saveNotes ok ns db = (if ok then Inr (putAll ns db) else Inl DbError)"

definition clearAllNotes :: "bool \<Rightarrow> store \<Rightarrow> dbError + store" where
  "clearAllNotes ok db = (if ok then Inr Map.empty else Inl DbError)"

definition deleteNote :: "bool \<Rightarrow> jsstring \<Rightarrow> store \<Rightarrow> dbError + store" where
  "deleteNote ok i db = (if ok then Inr (db(i := None)) else Inl DbError)"

text \<open>Reading normalises a record: \<open>normalizeNote\<close> defaults the optional fields.\<close>

definition normalizeNote :: "NoteRecord \<Rightarrow> Note" where
  "normalizeNote r = withDefaults (Note.truncate r)"

definition getNote :: "bool \<Rightarrow> jsstring \<Rightarrow> store \<Rightarrow> dbError + Note option" where
  "getNote ok i db = (if ok then Inr (map_option normalizeNote (db i)) else Inl DbError)"

section \<open>Cross-tab messages (utils/sync.ts)\<close>

text \<open>
  \<open>postMessage(noteId, version)\<close> sends \<open>{type: 'NOTE_UPDATED', noteId, version,
  timestamp: Date.now()}\<close>. The version is the one the caller passes, so it is
  missing when the note's is.
\<close>

record SyncMessage =
  msg_noteId :: jsstring
  msg_version :: "int option"
  msg_timestamp :: int

section \<open>The note registry (App.tsx)\<close>

record ConflictState =
  hasConflict :: bool
  externalVersion :: "int option"

text \<open>
  The state of the \<open>App\<close> component, together with what it acts on: the store, the
  messages it has posted to other tabs (oldest first) and the alerts it has shown.
  The effect of \<open>App\<close> that runs after \<open>notes\<close> or \<open>activeNoteId\<close> changed and sets the
  subject from the active note is no part of a handler below: \<open>currentSubject\<close> is
  the value a handler leaves, before that effect.
\<close>

record App =
  noteList :: "Note list"
  activeNoteId :: "jsstring option"
  conflict :: "ConflictState option"
  currentSubject :: SubjectType
  db :: store
  posted :: "SyncMessage list"
  alerts :: "jsstring list"

text \<open>\<open>xs.findIndex(p)\<close>: the first index whose element satisfies \<open>p\<close>; \<open>None\<close> is -1.\<close>

fun findIndex :: "('a \<Rightarrow> bool) \<Rightarrow> 'a list \<Rightarrow> nat option" where
  "findIndex P [] = None"
| "findIndex P (x # xs) = (if P x then Some 0 else map_option Suc (findIndex P xs))"

definition postMessage :: "jsstring \<Rightarrow> int option \<Rightarrow> int \<Rightarrow> App \<Rightarrow> App" where
  "postMessage i v now s =
     s\<lparr>posted := posted s @ [\<lparr>msg_noteId = i, msg_version = v, msg_timestamp = now\<rparr>]\<rparr>"

text \<open>
  \<^verbatim>\<open>
  const handleCreateNote = useCallback(async () => {
    const newNote: Note = { id: generateId(), title: '', content: '',
      updatedAt: Date.now(), version: 1, tags: [], subjectType: 'general' };
    try {
      await saveNote(newNote);
      setNotes((prevNotes) => [newNote, ...prevNotes]);
      setActiveNoteId(newNote.id);
    } catch (error) {
      alert('Failed to create note. Please try again.');
    }
  \<close>
  The generated id and the clock are inputs.
\<close>

definition newNote :: "jsstring \<Rightarrow> int \<Rightarrow> Note" where
  "newNote newId now =
     \<lparr>note_id = newId, title = [], content = [], updatedAt = now, version = Some 1,
      tags = Some [], subjectType = Some General, aiMetadata = None, aiInsights = None\<rparr>"

definition handleCreateNote :: "bool \<Rightarrow> jsstring \<Rightarrow> int \<Rightarrow> App \<Rightarrow> App" where
  "handleCreateNote ok newId now s =
     (case saveNote ok (newNote newId now) (db s) of
        Inr db' \<Rightarrow> s\<lparr>db := db', noteList := newNote newId now # noteList s,
                      activeNoteId := Some newId\<rparr>
      | Inl e \<Rightarrow> s\<lparr>alerts := alerts s @ [lit ''Failed to create note. Please try again.'']\<rparr>)"

definition handleSelectNote :: "jsstring \<Rightarrow> App \<Rightarrow> App" where
  "handleSelectNote i s = s\<lparr>activeNoteId := Some i, conflict := None\<rparr>"

definition handleDeleteNote :: "bool \<Rightarrow> jsstring \<Rightarrow> App \<Rightarrow> App" where
  "handleDeleteNote ok i s =
     (case deleteNote ok i (db s) of
        Inr db' \<Rightarrow>
          (let s' = s\<lparr>db := db', noteList := filter (\<lambda>n. note_id n \<noteq> i) (noteList s)\<rparr>
           in if activeNoteId s = Some i then s'\<lparr>activeNoteId := None, conflict := None\<rparr>
              else s')
      | Inl e \<Rightarrow> s\<lparr>alerts := alerts s @ [lit ''Failed to delete note. Please try again.'']\<rparr>)"


text \<open>
  The save that \<open>handleUpdateNoteFull\<close> and \<open>handleRenameNote\<close> start:
  \<open>saveNote(updatedNote).then(() => postMessage(updatedNote.id, updatedNote.version))\<close>,
  with a failure only logged. The broadcast carries the version of the note as the
  registry holds it, and is sent only after the save succeeded.
\<close>

definition saveAndPost :: "bool \<Rightarrow> Note \<Rightarrow> int \<Rightarrow> App \<Rightarrow> App" where
  "saveAndPost ok n now s =
     (case saveNote ok n (db s) of
        Inr db' \<Rightarrow> postMessage (note_id n) (version n) now (s\<lparr>db := db'\<rparr>)
      | Inl e \<Rightarrow> s)"

text \<open>
  \<^verbatim>\<open>
  const handleUpdateNoteFull = useCallback(async (updatedNote: Note) => {
    setNotes((prevNotes) => {
      const noteIndex = prevNotes.findIndex((n) => n.id === updatedNote.id);
      if (noteIndex === -1) return prevNotes;
      const newNotes = [...prevNotes];
      newNotes[noteIndex] = updatedNote;
      saveNote(updatedNote).then(() => { postMessage(updatedNote.id, updatedNote.version); })
        .catch(...);
      return newNotes;
  \<close>
\<close>

definition handleUpdateNoteFull :: "bool \<Rightarrow> Note \<Rightarrow> int \<Rightarrow> App \<Rightarrow> App" where
  "handleUpdateNoteFull ok updatedNote now s =
     (case findIndex (\<lambda>n. note_id n = note_id updatedNote) (noteList s) of
        None \<Rightarrow> s
      | Some noteIndex \<Rightarrow>
          saveAndPost ok updatedNote now (s\<lparr>noteList := (noteList s)[noteIndex := updatedNote]\<rparr>))"


definition handleRenameNote :: "bool \<Rightarrow> jsstring \<Rightarrow> jsstring \<Rightarrow> int \<Rightarrow> App \<Rightarrow> App" where
  "handleRenameNote ok i newTitle now s =
     (case findIndex (\<lambda>n. note_id n = i) (noteList s) of
        None \<Rightarrow> s
      | Some noteIndex \<Rightarrow>
          (let prev = noteList s ! noteIndex;
               updatedNote = prev\<lparr>title := newTitle, updatedAt := now,
                                   version := Some (plusOne (numOr (version prev) 0))\<rparr>
           in saveAndPost ok updatedNote now (s\<lparr>noteList := (noteList s)[noteIndex := updatedNote]\<rparr>)))"


definition handleRemoveTag :: "bool \<Rightarrow> Note \<Rightarrow> jsstring \<Rightarrow> int \<Rightarrow> App \<Rightarrow> App" where
  "handleRemoveTag ok note tagToRemove now s =
     handleUpdateNoteFull ok
       (note\<lparr>tags := Some (filter (\<lambda>t. t \<noteq> tagToRemove) (valOr (tags note) []))\<rparr>) now s"


text \<open>
  \<^verbatim>\<open>
  const unsubscribe = onMessage(async (message) => {
    if (message.noteId === activeNoteId) {
      const localNote = notes.find((n) => n.id === message.noteId);
      if (localNote && message.version > localNote.version) {
        setConflict({ hasConflict: true, externalVersion: message.version });
  \<close>
  \<open>a > b\<close> is false when either side is \<open>undefined\<close>.
\<close>

fun numGreater :: "int option \<Rightarrow> int option \<Rightarrow> bool" where
  "numGreater (Some a) (Some b) = (a > b)"
| "numGreater _ _ = False"

definition onMessage :: "SyncMessage \<Rightarrow> App \<Rightarrow> App" where
  "onMessage message s =
     (if Some (msg_noteId message) = activeNoteId s
      then (case find (\<lambda>n. note_id n = msg_noteId message) (noteList s) of
              Some localNote \<Rightarrow>
                if numGreater (msg_version message) (version localNote)
                then s\<lparr>conflict := Some \<lparr>hasConflict = True,
                                          externalVersion = msg_version message\<rparr>\<rparr>
                else s
            | None \<Rightarrow> s)
      else s)"

definition handleConflictIgnore :: "App \<Rightarrow> App" where
  "handleConflictIgnore s = s\<lparr>conflict := None\<rparr>"

definition handleConflictReload :: "bool \<Rightarrow> App \<Rightarrow> App" where
  "handleConflictReload ok s =
     (case (activeNoteId s, conflict s) of
        (Some a, Some c) \<Rightarrow>
          (case getNote ok a (db s) of
             Inr (Some latestNote) \<Rightarrow>
               s\<lparr>noteList := map (\<lambda>n. if note_id n = a then latestNote else n) (noteList s),
                  conflict := None\<rparr>
           | Inr None \<Rightarrow> s\<lparr>conflict := None\<rparr>
           | Inl e \<Rightarrow> s\<lparr>alerts := alerts s @ [lit ''Failed to reload changes. Please try again.''],
                         conflict := None\<rparr>)
      | _ \<Rightarrow> s)"

definition initialApp :: App where
  "initialApp = \<lparr>noteList = [], activeNoteId = None, conflict = None,
                  currentSubject = General, db = Map.empty, posted = [], alerts = []\<rparr>"

section \<open>Notes as JSON (utils/export.ts, utils/import.ts)\<close>

text \<open>
  \<open>JSON.stringify\<close> writes the properties a note object has and leaves out the ones
  that are \<open>undefined\<close>. The order of the keys is the order in which the object got
  them; every reader below looks a property up by its key.
\<close>

definition subjectName :: "SubjectType \<Rightarrow> jsstring" where
  "subjectName t = (case t of General \<Rightarrow> lit ''general'' | Math \<Rightarrow> lit ''math''
      | Chemistry \<Rightarrow> lit ''chemistry'' | Code \<Rightarrow> lit ''code'' | Language \<Rightarrow> lit ''language'')"

definition optProp :: "string \<Rightarrow> ('a \<Rightarrow> json) \<Rightarrow> 'a option \<Rightarrow> (jsstring \<times> json) list" where
  "optProp k f x = (case x of None \<Rightarrow> [] | Some v \<Rightarrow> [(lit k, f v)])"

definition metadataToJson :: "AIMetadata \<Rightarrow> json" where
  "metadataToJson m = JObj (optProp ''summary'' JStr (md_summary m) @ optProp ''lastAnalyzed'' JNum (lastAnalyzed m))"

definition insightsToJson :: "AIInsights \<Rightarrow> json" where
  "insightsToJson a = JObj
     [(lit ''summary'', summary a),
      (lit ''definitions'', JArr (definitions a)),
      (lit ''additionalContext'', additionalContext a),
      (lit ''studyQuestions'', JArr (studyQuestions a)),
      (lit ''generatedAt'', JNum (generatedAt a)),
      (lit ''contentHash'', JStr (contentHash a))]"

definition noteToJson :: "Note \<Rightarrow> json" where
  "noteToJson n = JObj
     ([(lit ''id'', JStr (note_id n)),
       (lit ''title'', JStr (title n)),
       (lit ''content'', JStr (content n)),
       (lit ''updatedAt'', JNum (updatedAt n))]
      @ optProp ''version'' JNum (version n)
      @ optProp ''tags'' (\<lambda>ts. JArr (map JStr ts)) (tags n)
      @ optProp ''subjectType'' (\<lambda>t. JStr (subjectName t)) (subjectType n)
      @ optProp ''aiMetadata'' metadataToJson (aiMetadata n)
      @ optProp ''aiInsights'' insightsToJson (aiInsights n))"



text \<open>
  \<^verbatim>\<open>
  function validateImportData(data: unknown): data is ExportData {
    if (typeof data !== 'object' || data === null) return false;
    const exportData = data as Record<string, unknown>;
    if (typeof exportData.version !== 'string') return false;
    if (typeof exportData.exportedAt !== 'string') return false;
    if (!Array.isArray(exportData.notes)) return false;
    return exportData.notes.every((note: unknown) => {
      if (typeof note !== 'object' || note === null) return false;
      const n = note as Record<string, unknown>;
      return (typeof n.id === 'string' && typeof n.title === 'string' &&
              typeof n.content === 'string' && typeof n.updatedAt === 'number');
    });
  \<close>
\<close>

definition validNote :: "json \<Rightarrow> bool" where
  "validNote note =
     (if typeof (Some note) \<noteq> TObject \<or> note = JNull then False
      else typeof (field note ''id'') = TString \<and>
           typeof (field note ''title'') = TString \<and>
           typeof (field note ''content'') = TString \<and>
           typeof (field note ''updatedAt'') = TNumber)"

definition validateImportData :: "json \<Rightarrow> bool" where
  "validateImportData data =
     (if typeof (Some data) \<noteq> TObject \<or> data = JNull then False
      else if typeof (field data ''version'') \<noteq> TString then False
      else if typeof (field data ''exportedAt'') \<noteq> TString then False
      else if \<not> isArray (field data ''notes'') then False
      else (case field data ''notes'' of
              Some (JArr ns) \<Rightarrow> list_all validNote ns
            | _ \<Rightarrow> False))"

datatype ImportMode = Merge | Replace

datatype ImportResult =
    ImportOk (message: jsstring) (importedCount: nat) (newCount: nat) (updatedCount: nat)
  | ImportFailed (message: jsstring)

fun success :: "ImportResult \<Rightarrow> bool" where
  "success (ImportOk m i n u) = True"
| "success (ImportFailed m) = False"

text \<open>The notes of a parsed file, and the id of one of them.\<close>

definition notesOf :: "json \<Rightarrow> json list" where
  "notesOf data = (case field data ''notes'' of Some (JArr ns) \<Rightarrow> ns | _ \<Rightarrow> [])"

definition idOf :: "json \<Rightarrow> jsstring" where
  "idOf note = (case field note ''id'' of Some (JStr i) \<Rightarrow> i | _ \<Rightarrow> [])"

text \<open>
  The merge loop of \<open>importNotes\<close> over the ids: an id the map has counts as updated,
  any other as new, and \<open>set\<close> adds it to the map either way.
\<close>

fun mergeCounts :: "jsstring list \<Rightarrow> jsstring list \<Rightarrow> nat \<times> nat" where
  "mergeCounts keys [] = (0, 0)"
| "mergeCounts keys (i # rest) =
     (let (n, u) = mergeCounts (i # keys) rest
      in if i \<in> set keys then (n, Suc u) else (Suc n, u))"

definition importNotes ::
  "(jsstring \<Rightarrow> jsstring + json) \<Rightarrow> jsstring \<Rightarrow> Note list \<Rightarrow> ImportMode \<Rightarrow> ImportResult" where
  "importNotes parse fileContent currentNotes mode =
     (case parse fileContent of
        Inl err \<Rightarrow> ImportFailed (lit ''Failed to parse file: '' @ err)
      | Inr parsed \<Rightarrow>
          if \<not> validateImportData parsed
          then ImportFailed (lit ''Invalid file format. Expected valid JSON with notes array.'')
          else
            (let importedNotes = notesOf parsed;
                 (newCount, updatedCount) =
                   (case mode of
                      Replace \<Rightarrow> (length importedNotes, 0)
                    | Merge \<Rightarrow> mergeCounts (map note_id currentNotes) (map idOf importedNotes));
                 totalCount = newCount + updatedCount;
                 message =
                   (case mode of
                      Replace \<Rightarrow> lit ''Imported '' @ showNat totalCount @ lit '' notes (replaced all)''
                    | Merge \<Rightarrow> lit ''Imported '' @ showNat totalCount @ lit '' notes ('' @
                        showNat newCount @ lit '' new, '' @ showNat updatedCount @ lit '' updated)'')
             in ImportOk message totalCount newCount updatedCount))"

text \<open>
  \<open>handleImport\<close> takes \<open>importedData.notes\<close> as \<open>Note[]\<close> without a check beyond
  \<open>validateImportData\<close>. \<open>asNote\<close> reads a validated object as a note: the four
  checked properties, and each optional property either missing or of its declared
  type. Where an optional property has another type the object is no \<open>Note\<close>, and
  \<open>asNote\<close> is \<open>None\<close>.
\<close>

fun asOptional :: "(json \<Rightarrow> 'a option) \<Rightarrow> json option \<Rightarrow> 'a option option" where
  "asOptional rd None = Some None"
| "asOptional rd (Some j) = map_option Some (rd j)"

fun asNum :: "json \<Rightarrow> int option" where
  "asNum (JNum n) = Some n"
| "asNum _ = None"

fun asStr :: "json \<Rightarrow> jsstring option" where
  "asStr (JStr x) = Some x"
| "asStr _ = None"

fun asArr :: "json \<Rightarrow> json list option" where
  "asArr (JArr xs) = Some xs"
| "asArr _ = None"

fun allSome :: "'a option list \<Rightarrow> 'a list option" where
  "allSome [] = Some []"
| "allSome (x # xs) =
     (case x of None \<Rightarrow> None
      | Some y \<Rightarrow> (case allSome xs of None \<Rightarrow> None | Some ys \<Rightarrow> Some (y # ys)))"

definition asStrList :: "json \<Rightarrow> jsstring list option" where
  "asStrList j = (case asArr j of None \<Rightarrow> None | Some xs \<Rightarrow> allSome (map asStr xs))"

definition asSubject :: "json \<Rightarrow> SubjectType option" where
  "asSubject j =
     (case asStr j of
        None \<Rightarrow> None
      | Some x \<Rightarrow> find (\<lambda>t. subjectName t = x) [General, Math, Chemistry, Code, Language])"

definition asMetadata :: "json \<Rightarrow> AIMetadata option" where
  "asMetadata j =
     (case j of
        JObj kvs \<Rightarrow>
          (case (asOptional asStr (field j ''summary''), asOptional asNum (field j ''lastAnalyzed'')) of
             (Some x, Some t) \<Rightarrow> Some \<lparr>md_summary = x, lastAnalyzed = t\<rparr>
           | _ \<Rightarrow> None)
      | _ \<Rightarrow> None)"

definition asInsights :: "json \<Rightarrow> AIInsights option" where
  "asInsights j =
     (case (field j ''summary'', Option.bind (field j ''definitions'') asArr,
            field j ''additionalContext'', Option.bind (field j ''studyQuestions'') asArr,
            Option.bind (field j ''generatedAt'') asNum, Option.bind (field j ''contentHash'') asStr) of
        (Some x, Some ds, Some c, Some qs, Some t, Some h) \<Rightarrow>
          Some \<lparr>summary = x, definitions = ds, additionalContext = c, studyQuestions = qs,
                generatedAt = t, contentHash = h\<rparr>
      | _ \<Rightarrow> None)"

definition asNote :: "json \<Rightarrow> Note option" where
  "asNote j =
     (case (Option.bind (field j ''id'') asStr, Option.bind (field j ''title'') asStr,
            Option.bind (field j ''content'') asStr, Option.bind (field j ''updatedAt'') asNum) of
        (Some i, Some t, Some c, Some u) \<Rightarrow>
          (case (asOptional asNum (field j ''version''), asOptional asStrList (field j ''tags''),
                 asOptional asSubject (field j ''subjectType''),
                 asOptional asMetadata (field j ''aiMetadata''),
                 asOptional asInsights (field j ''aiInsights'')) of
             (Some v, Some ts, Some st, Some md, Some ins) \<Rightarrow>
               Some \<lparr>note_id = i, title = t, content = c, updatedAt = u, version = v, tags = ts,
                     subjectType = st, aiMetadata = md, aiInsights = ins\<rparr>
           | _ \<Rightarrow> None)
      | _ \<Rightarrow> None)"

text \<open>
  A JavaScript \<open>Map\<close> keeps its keys in insertion order; \<open>set\<close> on a key it has
  replaces the value where it stands.
\<close>

fun mapSet :: "'k \<Rightarrow> 'v \<Rightarrow> ('k \<times> 'v) list \<Rightarrow> ('k \<times> 'v) list" where
  "mapSet k v [] = [(k, v)]"
| "mapSet k v ((k', v') # kvs) = (if k = k' then (k, v) # kvs else (k', v') # mapSet k v kvs)"

definition mergeNotes :: "Note list \<Rightarrow> Note list \<Rightarrow> Note list" where
  "mergeNotes currentNotes imported =
     map snd (foldl (\<lambda>m n. mapSet (note_id n) n m) [] (currentNotes @ imported))"

text \<open>
  \<open>newNotes.sort((a, b) => b.updatedAt - a.updatedAt)\<close>: a stable sort, latest first.
\<close>

definition sortByUpdatedAt :: "Note list \<Rightarrow> Note list" where
  "sortByUpdatedAt ns = sort_key (\<lambda>n. - updatedAt n) ns"

text \<open>
  \<^verbatim>\<open>
  const handleImport = useCallback(async (fileContent: string, mode: ImportMode) => {
    const result = importNotes(fileContent, notes, mode);
    if (result.success) {
      const importedData = JSON.parse(fileContent);
      let newNotes: Note[];
      if (mode === 'replace') {
        newNotes = [...importedData.notes];
        await clearAllNotes();
      } else { ... merge by id ... }
      newNotes.sort((a, b) => b.updatedAt - a.updatedAt);
      await saveNotes(newNotes);
      setNotes(newNotes);
      alert(result.message);
    } else {
      alert(`Import failed: ${result.message}`);
    }
  \<close>
  A storage failure leaves the handler through the rejected promise: what was done
  before it stays done, nothing after it happens. The result is \<open>None\<close> where a
  validated note is no \<open>Note\<close>.
\<close>

definition handleImport ::
  "(jsstring \<Rightarrow> jsstring + json) \<Rightarrow> bool \<Rightarrow> bool \<Rightarrow> jsstring \<Rightarrow> ImportMode \<Rightarrow> App \<Rightarrow> App option" where
  "handleImport parse clearOk saveOk fileContent mode s =
     (case importNotes parse fileContent (noteList s) mode of
        ImportFailed m \<Rightarrow> Some (s\<lparr>alerts := alerts s @ [lit ''Import failed: '' @ m]\<rparr>)
      | ImportOk m cnt n u \<Rightarrow>
          (case parse fileContent of
             Inl err \<Rightarrow> Some s
           | Inr importedData \<Rightarrow>
               (case allSome (map asNote (notesOf importedData)) of
                  None \<Rightarrow> None
                | Some imported \<Rightarrow>
                    (case (case mode of
                             Replace \<Rightarrow> map_sum id (Pair imported) (clearAllNotes clearOk (db s))
                           | Merge \<Rightarrow> Inr (mergeNotes (noteList s) imported, db s)) of
                       Inl e \<Rightarrow> Some s
                     | Inr (newNotes, db1) \<Rightarrow>
                         (case saveNotes saveOk (sortByUpdatedAt newNotes) db1 of
                            Inl e \<Rightarrow> Some (s\<lparr>db := db1\<rparr>)
                          | Inr db2 \<Rightarrow>
                              Some (s\<lparr>db := db2, noteList := sortByUpdatedAt newNotes,
                                      alerts := alerts s @ [m]\<rparr>))))))"

section \<open>The remote endpoint and the text services (services/llm.ts)\<close>

text \<open>
  What \<open>fetch('/api/generate')\<close> answers, as \<open>api/generate\<close> sends it: status 200
  with \<open>{response}\<close>; status 429 with \<open>{error, message, retryAfter}\<close>; or another
  status with \<open>{error, message}\<close>. \<open>Failure\<close> carries the status and, like
  \<open>RateLimited\<close>, the message when the body has one.
\<close>

datatype response =
    Success jsstring
  | RateLimited "jsstring option"
  | Failure nat "jsstring option"

datatype jsError = Error jsstring

text \<open>
  \<^verbatim>\<open>
  if (response.status === 429) {
    const data = await response.json();
    throw new Error(data.message || 'Rate limited. Please wait a moment.');
  }
  if (!response.ok) {
    const errorData = await response.json().catch(() => ({}));
    throw new Error(errorData.message || `HTTP error! status: ${response.status}`);
  }
  const data: KimiResponse = await response.json();
  return data.response;
  \<close>
  The request (the prompt, cut to its length cap) and the chunk callbacks of the
  simulated streaming are left out: no claim below reads them.
\<close>

definition generateText :: "response \<Rightarrow> jsError + jsstring" where
  "generateText r =
     (case r of
        RateLimited m \<Rightarrow> Inl (Error (strOr m (lit ''Rate limited. Please wait a moment.'')))
      | Failure st m \<Rightarrow> Inl (Error (strOr m (lit ''HTTP error! status: '' @ showNat st)))
      | Success text \<Rightarrow> Inr text)"

definition generateSummary :: "response \<Rightarrow> jsError + jsstring" where
  "generateSummary r = generateText r"

definition continueWriting :: "response \<Rightarrow> jsError + jsstring" where
  "continueWriting r = generateText r"

definition suggestTags :: "response \<Rightarrow> jsError + jsstring list" where
  "suggestTags r = (case generateText r of Inl e \<Rightarrow> Inl e | Inr text \<Rightarrow> Inr (parseTags text))"

section \<open>The worker (workers/llm.worker.ts)\<close>

datatype WorkerMessageType = SUMMARIZE | TAGS | CONTINUE

datatype WorkerData = Text jsstring | TagList "jsstring list"

text \<open>
  The final message of the worker: \<open>{success: true, data}\<close>, or
  \<open>{success: false, error: error.message}\<close> from its \<open>catch\<close>.
\<close>

datatype WorkerResponse = WorkerOk WorkerData | WorkerError jsstring

fun errorMessage :: "jsError \<Rightarrow> jsstring" where
  "errorMessage (Error m) = m"

definition worker :: "WorkerMessageType \<Rightarrow> response \<Rightarrow> WorkerResponse" where
  "worker t r =
     (case t of
        SUMMARIZE \<Rightarrow> (case generateSummary r of
                        Inl e \<Rightarrow> WorkerError (errorMessage e) | Inr x \<Rightarrow> WorkerOk (Text x))
      | TAGS \<Rightarrow> (case suggestTags r of
                   Inl e \<Rightarrow> WorkerError (errorMessage e) | Inr xs \<Rightarrow> WorkerOk (TagList xs))
      | CONTINUE \<Rightarrow> (case continueWriting r of
                       Inl e \<Rightarrow> WorkerError (errorMessage e) | Inr x \<Rightarrow> WorkerOk (Text x)))"

section \<open>What a component does\<close>

text \<open>
  A handler's observable doings, in order: a network call (with the clock at the
  call), an error message put on the screen, a note handed to \<open>onUpdateNote\<close>, the
  tags offered, the grammar answer, the ghost text cleared.
\<close>

datatype aiOp = OpSummary | OpTags | OpContinuation | OpGrammar | OpInsights

datatype event =
    Fetch aiOp int
  | Shown aiOp jsstring
  | NoteUpdate Note
  | TagsSuggested "jsstring list"
  | GrammarText jsstring
  | GhostCleared

datatype AIStatus = Connected | Offline | Checking

section \<open>Summary, tags and continuation (AISidebar.tsx, Editor.tsx)\<close>

text \<open>
  \<^verbatim>\<open>
  const handleGenerateSummary = useCallback(async () => {
    if (!note || aiStatus !== 'connected') return;
    ...
      const response = await sendWorkerMessage(request);
      if (response.success && typeof response.data === 'string') {
        const updatedNote: Note = { ...note,
          aiMetadata: { summary: response.data, lastAnalyzed: Date.now() } };
        onUpdateNote(updatedNote);
      } else if (response.error) {
        setError(response.error);
  \<close>
  \<open>now\<close> is the clock at the request, \<open>doneAt\<close> at the answer. No handler of this
  section reads a clock before it sends.
\<close>

definition handleGenerateSummary ::
  "Note option \<Rightarrow> AIStatus \<Rightarrow> int \<Rightarrow> int \<Rightarrow> response \<Rightarrow> event list" where
  "handleGenerateSummary note aiStatus now doneAt r =
     (case note of
        None \<Rightarrow> []
      | Some n \<Rightarrow>
          if aiStatus \<noteq> Connected then []
          else Fetch OpSummary now #
            (case worker SUMMARIZE r of
               WorkerOk (Text x) \<Rightarrow>
                 [NoteUpdate (n\<lparr>aiMetadata := Some \<lparr>md_summary = Some x, lastAnalyzed = Some doneAt\<rparr>\<rparr>)]
             | WorkerOk (TagList xs) \<Rightarrow> []
             | WorkerError m \<Rightarrow> if m \<noteq> [] then [Shown OpSummary m] else []))"

definition handleSuggestTags ::
  "Note option \<Rightarrow> AIStatus \<Rightarrow> int \<Rightarrow> response \<Rightarrow> event list" where
  "handleSuggestTags note aiStatus now r =
     (case note of
        None \<Rightarrow> []
      | Some n \<Rightarrow>
          if aiStatus \<noteq> Connected then []
          else Fetch OpTags now #
            (case worker TAGS r of
               WorkerOk (TagList xs) \<Rightarrow> [TagsSuggested xs]
             | WorkerOk (Text x) \<Rightarrow> []
             | WorkerError m \<Rightarrow> if m \<noteq> [] then [Shown OpTags m] else []))"

text \<open>
  \<open>generateContinuation\<close> (Editor.tsx) sends when there is a note, the AI is connected
  and the text is not blank; a failed answer only clears the ghost text:
  \<open>if (!response.success) { setGhostText(''); }\<close>.
\<close>

definition generateContinuation ::
  "Note option \<Rightarrow> AIStatus \<Rightarrow> jsstring \<Rightarrow> int \<Rightarrow> response \<Rightarrow> event list" where
  "generateContinuation note aiStatus text now r =
     (if note = None \<or> aiStatus \<noteq> Connected then []
      else if trim text = [] then []
      else Fetch OpContinuation now #
        (case worker CONTINUE r of
           WorkerOk d \<Rightarrow> []
         | WorkerError m \<Rightarrow> [GhostCleared]))"

section \<open>The grammar checker (GrammarChecker.tsx)\<close>

definition COOLDOWN_MS :: int where
  "COOLDOWN_MS = 3000"

definition RETRY_DELAY_MS :: int where
  "RETRY_DELAY_MS = 3000"

text \<open>\<open>Math.ceil(x / 1000)\<close> on an integer number of milliseconds.\<close>

definition ceilSeconds :: "int \<Rightarrow> int" where
  "ceilSeconds x = - ((- x) div 1000)"

record GrammarChecker =
  lastCheckTime :: int
  grammarCooldown :: int

definition initialGrammar :: GrammarChecker where
  "initialGrammar = \<lparr>lastCheckTime = 0, grammarCooldown = 0\<rparr>"

text \<open>
  The checker is gated by its own countdown \<open>cooldownRemaining\<close>, a component state
  that \<open>startCooldown\<close> sets to 3 and an interval callback recomputes every second
  from the checker's own \<open>lastCheckTimeRef\<close>:
  \<^verbatim>\<open>
  const elapsed = Date.now() - lastCheckTimeRef.current;
  const remaining = Math.ceil((COOLDOWN_MS - elapsed) / 1000);
  if (remaining <= 0) { setCooldownRemaining(0); clearInterval(interval); }
  else { setCooldownRemaining(remaining); }
  \<close>
\<close>

definition grammarTick :: "int \<Rightarrow> GrammarChecker \<Rightarrow> GrammarChecker" where
  "grammarTick now g =
     (let elapsed = now - lastCheckTime g;
          remaining = ceilSeconds (COOLDOWN_MS - elapsed)
      in if remaining \<le> 0 then g\<lparr>grammarCooldown := 0\<rparr> else g\<lparr>grammarCooldown := remaining\<rparr>)"

text \<open>
  \<^verbatim>\<open>
  const checkGrammar = useCallback(async () => {
    if (!hasContent || isOffline || isInCooldown) return;
    ...
      startCooldown();
      const response = await fetch('/api/generate', ...);
      if (response.status === 429) throw new Error('Rate limited. Please wait a moment.');
      if (!response.ok) throw new Error(`HTTP error! status: ${response.status}`);
      ...
    } catch (err) {
      setError(err instanceof Error ? err.message : 'Failed to check grammar');
  \<close>
  with \<open>hasContent = content.trim().length > 20\<close>, \<open>isOffline = aiStatus === 'offline'\<close>
  and \<open>isInCooldown = cooldownRemaining > 0\<close>. The answer's text is passed on as it
  came; its reading into suggestions is not modelled.
\<close>

definition checkGrammar ::
  "AIStatus \<Rightarrow> jsstring \<Rightarrow> int \<Rightarrow> response \<Rightarrow> GrammarChecker \<Rightarrow> GrammarChecker \<times> event list" where
  "checkGrammar aiStatus text now r g =
     (if \<not> length (trim text) > 20 \<or> aiStatus = Offline \<or> grammarCooldown g > 0 then (g, [])
      else (g\<lparr>lastCheckTime := now, grammarCooldown := 3\<rparr>,
            Fetch OpGrammar now #
              (case r of
                 RateLimited m \<Rightarrow> [Shown OpGrammar (lit ''Rate limited. Please wait a moment.'')]
               | Failure st m \<Rightarrow> [Shown OpGrammar (lit ''HTTP error! status: '' @ showNat st)]
               | Success x \<Rightarrow> [GrammarText x])))"

section \<open>Insights (services/insights.ts)\<close>

text \<open>
  \<^verbatim>\<open>
  function hashContent(content: string): string {
    let hash = 0;
    for (let i = 0; i < content.length; i++) {
      const char = content.charCodeAt(i);
      hash = ((hash << 5) - hash) + char;
      hash = hash & hash;
    }
    return hash.toString(16);
  }
  \<close>
  \<open>hash & hash\<close> brings the sum back to a signed 32-bit integer, so the loop is
  32-bit arithmetic; \<open>toString(16)\<close> writes a negative number as \<open>-\<close> and the
  digits of its absolute value.
\<close>

definition hexDigit :: "nat \<Rightarrow> jschar" where
  "hexDigit d = (if d < 10 then of_nat (48 + d) else of_nat (87 + d))"

fun showHexNat :: "nat \<Rightarrow> jsstring" where
  "showHexNat n = (if n < 16 then [hexDigit n] else showHexNat (n div 16) @ [hexDigit (n mod 16)])"

declare showHexNat.simps [simp del]

definition showHex :: "int \<Rightarrow> jsstring" where
  "showHex i = (if i < 0 then lit ''-'' @ showHexNat (nat (- i)) else showHexNat (nat i))"

definition hashStep :: "32 word \<Rightarrow> jschar \<Rightarrow> 32 word" where
  "hashStep hash c = (push_bit 5 hash - hash) + ucast c"

definition hashContent :: "jsstring \<Rightarrow> jsstring" where
  "hashContent s = showHex (sint (foldl hashStep 0 s))"

text \<open>
  \<^verbatim>\<open>
  const jsonMatch = text.match(/```json\s*([\s\S]*?)```/) || text.match(/\{[\s\S]*\}/);
  const jsonText = jsonMatch ? jsonMatch[1] || jsonMatch[0] : text;
  \<close>
  The first pattern, tried at every position from the left: the opening fence, all
  the white space after it, then the shortest text up to a closing fence. The match
  is the pair of the whole match and the captured text. The second pattern: from the
  first opening brace to the last closing brace after it.
\<close>

definition fence :: jsstring where
  "fence = [0x60, 0x60, 0x60]"

definition fenceJson :: jsstring where
  "fenceJson = fence @ lit ''json''"

text \<open>The shortest text before a closing fence, if there is one.\<close>

fun beforeFence :: "jsstring \<Rightarrow> jsstring option" where
  "beforeFence [] = None"
| "beforeFence (c # cs) =
     (if prefix fence (c # cs) then Some []
      else map_option ((#) c) (beforeFence cs))"

fun matchFence :: "jsstring \<Rightarrow> (jsstring \<times> jsstring) option" where
  "matchFence [] = None"
| "matchFence (c # cs) =
     (if prefix fenceJson (c # cs)
      then (let rest = drop (length fenceJson) (c # cs);
                ws = takeWhile isWhiteSpace rest
            in case beforeFence (dropWhile isWhiteSpace rest) of
                 Some g \<Rightarrow> Some (fenceJson @ ws @ g @ fence, g)
               | None \<Rightarrow> matchFence cs)
      else matchFence cs)"

definition lbrace :: jschar where
  "lbrace = 0x7B"

definition rbrace :: jschar where
  "rbrace = 0x7D"

definition matchBraces :: "jsstring \<Rightarrow> jsstring option" where
  "matchBraces s =
     (case dropWhile (\<lambda>c. c \<noteq> lbrace) s of
        [] \<Rightarrow> None
      | b # rest \<Rightarrow>
          if rbrace \<in> set rest
          then Some (b # rev (dropWhile (\<lambda>c. c \<noteq> rbrace) (rev rest)))
          else None)"

definition jsonText :: "jsstring \<Rightarrow> jsstring" where
  "jsonText s =
     (case matchFence s of
        Some (whole, g) \<Rightarrow> if g \<noteq> [] then g else whole
      | None \<Rightarrow> (case matchBraces s of Some whole \<Rightarrow> whole | None \<Rightarrow> s))"

text \<open>\<open>x || d\<close> on a parsed property: \<open>undefined\<close>, \<open>null\<close>, \<open>false\<close>, \<open>0\<close> and \<open>''\<close> are falsy.\<close>

fun truthy :: "json \<Rightarrow> bool" where
  "truthy JNull = False"
| "truthy (JBool b) = b"
| "truthy (JNum n) = (n \<noteq> 0)"
| "truthy (JStr x) = (x \<noteq> [])"
| "truthy (JArr xs) = True"
| "truthy (JObj kvs) = True"

fun jsonOr :: "json option \<Rightarrow> json \<Rightarrow> json" where
  "jsonOr None d = d"
| "jsonOr (Some v) d = (if truthy v then v else d)"

fun arrayOrEmpty :: "json option \<Rightarrow> json list" where
  "arrayOrEmpty (Some (JArr xs)) = xs"
| "arrayOrEmpty _ = []"

text \<open>
  Reading a property of \<open>null\<close> throws a \<open>TypeError\<close>; its message is the engine's
  (V8's wording here).
\<close>

definition nullReadMessage :: jsstring where
  "nullReadMessage = lit ''Cannot read properties of null (reading 'summary')''"

text \<open>
  \<^verbatim>\<open>
  if (response.status === 429) {
    const data = await response.json().catch(() => ({}));
    throw new Error(data.message || 'Rate limited. Please wait a moment.');
  }
  if (!response.ok) { ... throw new Error(errorData.message || `HTTP error! status: ...`); }
  const data = await response.json();
  const text = data.response || '';
  let parsed;
  try {
    const jsonMatch = ...;
    const jsonText = jsonMatch ? jsonMatch[1] || jsonMatch[0] : text;
    parsed = JSON.parse(jsonText.trim());
  } catch (e) { parsed = {}; }
  const insights: AIInsights = {
    summary: parsed.summary || 'No summary available.',
    definitions: Array.isArray(parsed.definitions) ? parsed.definitions : [],
    additionalContext: parsed.additionalContext || '',
    studyQuestions: Array.isArray(parsed.studyQuestions) ? parsed.studyQuestions : [],
    generatedAt: Date.now(),
    contentHash: hashContent(content),
  };
  \<close>
  \<open>doneAt\<close> is the clock when the answer is read.
\<close>

definition generateInsights ::
  "(jsstring \<Rightarrow> jsstring + json) \<Rightarrow> int \<Rightarrow> jsstring \<Rightarrow> response \<Rightarrow> jsError + AIInsights" where
  "generateInsights parse doneAt noteText r =
     (case r of
        RateLimited m \<Rightarrow> Inl (Error (strOr m (lit ''Rate limited. Please wait a moment.'')))
      | Failure st m \<Rightarrow> Inl (Error (strOr m (lit ''HTTP error! status: '' @ showNat st)))
      | Success text \<Rightarrow>
          (let parsed = (case parse (trim (jsonText text)) of Inl e \<Rightarrow> JObj [] | Inr v \<Rightarrow> v)
           in if parsed = JNull then Inl (Error nullReadMessage)
              else Inr \<lparr>summary = jsonOr (field parsed ''summary'') (JStr (lit ''No summary available.'')),
                        definitions = arrayOrEmpty (field parsed ''definitions''),
                        additionalContext = jsonOr (field parsed ''additionalContext'') (JStr []),
                        studyQuestions = arrayOrEmpty (field parsed ''studyQuestions''),
                        generatedAt = doneAt,
                        contentHash = hashContent noteText\<rparr>))"

definition isInsightsStale :: "AIInsights option \<Rightarrow> jsstring \<Rightarrow> bool" where
  "isInsightsStale ins currentContent =
     (case ins of None \<Rightarrow> True | Some a \<Rightarrow> contentHash a \<noteq> hashContent currentContent)"

text \<open>
  \<open>services/llm.ts\<close> exports a second \<open>generateInsights\<close>, which no module imports.
  Its parse fallback differs: \<open>summary: response.substring(0, 200) + '...'\<close>, and its
  result has no \<open>generatedAt\<close> or \<open>contentHash\<close>. Only its fallback summary is
  recorded here.
\<close>

definition llmFallbackSummary :: "jsstring \<Rightarrow> jsstring" where
  "llmFallbackSummary text = take 200 text @ lit ''...''"

section \<open>The insights panel (InsightsPanel.tsx)\<close>

record InsightsPanel =
  lastRequestTime :: int
  panelError :: "jsstring option"
  isRetrying :: bool
  insights :: "AIInsights option"

definition initialPanel :: InsightsPanel where
  "initialPanel = \<lparr>lastRequestTime = 0, panelError = None, isRetrying = False, insights = None\<rparr>"

text \<open>\<open>s.toLowerCase()\<close> on the ASCII letters, and \<open>s.includes(sub)\<close>.\<close>

definition toLowerCase :: "jsstring \<Rightarrow> jsstring" where
  "toLowerCase s = map (\<lambda>c. if 0x41 \<le> c \<and> c \<le> 0x5A then c + 0x20 else c) s"

fun jsIncludes :: "jsstring \<Rightarrow> jsstring \<Rightarrow> bool" where
  "jsIncludes [] sub = (sub = [])"
| "jsIncludes (c # cs) sub = (prefix sub (c # cs) \<or> jsIncludes cs sub)"

text \<open>
  \<^verbatim>\<open>
  if (errorMessage.toLowerCase().includes('rate') ||
      errorMessage.toLowerCase().includes('429') ||
      errorMessage.toLowerCase().includes('too many')) {
  \<close>
\<close>

definition isRateLimitMessage :: "jsstring \<Rightarrow> bool" where
  "isRateLimitMessage m =
     (jsIncludes (toLowerCase m) (lit ''rate'') \<or> jsIncludes (toLowerCase m) (lit ''429'') \<or>
      jsIncludes (toLowerCase m) (lit ''too many''))"

definition waitMessage :: "int \<Rightarrow> jsstring" where
  "waitMessage timeSinceLastRequest =
     lit ''Please wait '' @ showInt (ceilSeconds (COOLDOWN_MS - timeSinceLastRequest)) @
     lit ''s between requests''"

definition busyMessage :: jsstring where
  "busyMessage = lit ''Service busy, retrying in 3 seconds...''"

text \<open>
  One run of \<open>generate(isRetry)\<close> up to its answer:
  \<^verbatim>\<open>
  const generate = useCallback(async (isRetry = false) => {
    if (!note || aiStatus !== 'connected') return;
    const timeSinceLastRequest = Date.now() - lastRequestTimeRef.current;
    if (!isRetry && timeSinceLastRequest < COOLDOWN_MS) {
      setError(`Please wait ${Math.ceil((COOLDOWN_MS - timeSinceLastRequest) / 1000)}s between requests`);
      return;
    }
    ...
    try {
      startCooldown();
      const newInsights = await generateInsights(note.content, subjectType);
      setInsights(newInsights);
      onUpdateNote({ ...note, aiInsights: newInsights });
    } catch (err) {
      const errorMessage = err instanceof Error ? err.message : 'Failed to generate insights';
      if (... rate, 429, too many ...) {
        setIsRetrying(true);
        setError('Service busy, retrying in 3 seconds...');
        setTimeout(() => { generate(true); }, RETRY_DELAY_MS);
        return;
      }
      setError(errorMessage);
  \<close>
  The third component of the result is the time at which the retry timer fires, when
  one was set.
\<close>

datatype admission = Skipped | Rejected jsstring | Admitted

definition admit :: "bool \<Rightarrow> Note option \<Rightarrow> AIStatus \<Rightarrow> int \<Rightarrow> InsightsPanel \<Rightarrow> admission" where
  "admit isRetry note aiStatus now p =
     (if note = None \<or> aiStatus \<noteq> Connected then Skipped
      else (let timeSinceLastRequest = now - lastRequestTime p
            in if \<not> isRetry \<and> timeSinceLastRequest < COOLDOWN_MS
               then Rejected (waitMessage timeSinceLastRequest)
               else Admitted))"

definition generate ::
  "(jsstring \<Rightarrow> jsstring + json) \<Rightarrow> bool \<Rightarrow> Note option \<Rightarrow> AIStatus \<Rightarrow> int \<Rightarrow> int \<times> response \<Rightarrow>
   InsightsPanel \<Rightarrow> InsightsPanel \<times> event list \<times> int option" where
  "generate parse isRetry note aiStatus now answer p =
     (case admit isRetry note aiStatus now p of
        Skipped \<Rightarrow> (p, [], None)
      | Rejected m \<Rightarrow> (p\<lparr>panelError := Some m\<rparr>, [Shown OpInsights m], None)
      | Admitted \<Rightarrow>
          (case note of
             None \<Rightarrow> (p, [], None)
           | Some n \<Rightarrow>
               (let p1 = p\<lparr>lastRequestTime := now, panelError := None, isRetrying := False\<rparr>;
                    doneAt = now + fst answer
                in case generateInsights parse doneAt (content n) (snd answer) of
                     Inr newInsights \<Rightarrow>
                       (p1\<lparr>insights := Some newInsights\<rparr>,
                        [Fetch OpInsights now, NoteUpdate (n\<lparr>aiInsights := Some newInsights\<rparr>)],
                        None)
                   | Inl e \<Rightarrow>
                       if isRateLimitMessage (errorMessage e)
                       then (p1\<lparr>isRetrying := True, panelError := Some busyMessage\<rparr>,
                             [Fetch OpInsights now, Shown OpInsights busyMessage],
                             Some (doneAt + RETRY_DELAY_MS))
                       else (p1\<lparr>panelError := Some (errorMessage e), isRetrying := False\<rparr>,
                             [Fetch OpInsights now, Shown OpInsights (errorMessage e)],
                             None))))"

text \<open>
  A request and the retries it sets off, against the answers the endpoint gives in
  turn, each with the time it takes. When the endpoint has no answer left the last
  call stays in flight.
\<close>

fun runGenerate ::
  "(jsstring \<Rightarrow> jsstring + json) \<Rightarrow> bool \<Rightarrow> Note option \<Rightarrow> AIStatus \<Rightarrow> int \<Rightarrow> (int \<times> response) list \<Rightarrow>
   InsightsPanel \<Rightarrow> InsightsPanel \<times> event list" where
  "runGenerate parse isRetry note aiStatus now [] p =
     (case admit isRetry note aiStatus now p of
        Skipped \<Rightarrow> (p, [])
      | Rejected m \<Rightarrow> (p\<lparr>panelError := Some m\<rparr>, [Shown OpInsights m])
      | Admitted \<Rightarrow> (p\<lparr>lastRequestTime := now, panelError := None, isRetrying := False\<rparr>,
                     [Fetch OpInsights now]))"
| "runGenerate parse isRetry note aiStatus now (answer # answers) p =
     (case generate parse isRetry note aiStatus now answer p of
        (p', evs, None) \<Rightarrow> (p', evs)
      | (p', evs, Some retryAt) \<Rightarrow>
          (let (p'', evs') = runGenerate parse True note aiStatus retryAt answers p'
           in (p'', evs @ evs')))"

text \<open>
  \<open>handleIdle\<close>: the automatic pass after 30 s without activity.
\<close>

definition handleIdle ::
  "(jsstring \<Rightarrow> jsstring + json) \<Rightarrow> bool \<Rightarrow> Note option \<Rightarrow> AIStatus \<Rightarrow> int \<Rightarrow> (int \<times> response) list \<Rightarrow>
   InsightsPanel \<Rightarrow> InsightsPanel \<times> event list" where
  "handleIdle parse autoGenerate note aiStatus now answers p =
     (case note of
        None \<Rightarrow> (p, [])
      | Some n \<Rightarrow>
          if \<not> autoGenerate \<or> aiStatus \<noteq> Connected then (p, [])
          else if now - lastRequestTime p < COOLDOWN_MS then (p, [])
          else if isInsightsStale (aiInsights n) (content n)
               then runGenerate parse False note aiStatus now answers p
               else (p, []))"

text \<open>The network calls among the events.\<close>

fun isFetch :: "event \<Rightarrow> bool" where
  "isFetch (Fetch op t) = True"
| "isFetch _ = False"

definition fetches :: "event list \<Rightarrow> event list" where
  "fetches evs = filter isFetch evs"

section \<open>Mutations of one note\<close>

text \<open>
  The version the registry holds for the note with a given id, read as the handlers
  read it (\<open>version || 0\<close>); \<open>None\<close> when the registry has no such note.
\<close>

definition versionOf :: "jsstring \<Rightarrow> App \<Rightarrow> int option" where
  "versionOf i s = map_option (\<lambda>n. numOr (version n) 0) (find (\<lambda>n. note_id n = i) (noteList s))"

text \<open>The version of the record the store holds under an id.\<close>

definition persistedVersion :: "jsstring \<Rightarrow> App \<Rightarrow> int option" where
  "persistedVersion i s = Option.bind (db s i) version"






section \<open>A JSON serialiser and parser\<close>




















section \<open>Examples\<close>

definition exampleNote :: Note where
  "exampleNote = newNote (lit ''n1'') 0"

definition exampleApp :: App where
  "exampleApp = handleCreateNote True (lit ''n1'') 0 initialApp"



text \<open>A file whose second note has a number where the id should be.\<close>

definition badFile :: json where
  "badFile = JObj [(lit ''version'', JStr (lit ''1.0'')), (lit ''exportedAt'', JStr (lit ''2026'')),
                   (lit ''notes'', JArr [noteToJson exampleNote, JObj [(lit ''id'', JNum 7)]])]"

section \<open>Retries of the insights panel\<close>

text \<open>
  Whether the panel takes an answer of the endpoint as a rate limit: the answer makes
  \<open>generateInsights\<close> throw, and the message of the error has \<open>rate\<close>, \<open>429\<close> or
  \<open>too many\<close> in it.
\<close>

definition takenAsRateLimit :: "(jsstring \<Rightarrow> jsstring + json) \<Rightarrow> jsstring \<Rightarrow> response \<Rightarrow> bool" where
  "takenAsRateLimit parse noteText r =
     (case generateInsights parse 0 noteText r of
        Inl e \<Rightarrow> isRateLimitMessage (errorMessage e)
      | Inr a \<Rightarrow> False)"

text \<open>
  The times of the calls of a request made at \<open>now\<close> whose answers, each taken as a
  rate limit, take the given times: every answer is followed by a call 3000 ms later.
\<close>

fun callTimes :: "int \<Rightarrow> int list \<Rightarrow> int list" where
  "callTimes now [] = [now]"
| "callTimes now (latency # rest) = now # callTimes (now + latency + RETRY_DELAY_MS) rest"

fun isShown :: "event \<Rightarrow> bool" where
  "isShown (Shown op m) = True"
| "isShown _ = False"

text \<open>The message the endpoint sends with status 429 (api/generate).\<close>

definition endpointRateLimitMessage :: jsstring where
  "endpointRateLimitMessage = lit ''Too many requests. Please wait a moment and try again.''"

definition rateLimitedAnswer :: response where
  "rateLimitedAnswer = RateLimited (Some endpointRateLimitMessage)"

text \<open>A parser for the examples: it knows the empty object and rejects anything else.\<close>

definition exampleParse :: "jsstring \<Rightarrow> jsstring + json" where
  "exampleParse x = (if x = lit ''{}'' then Inr (JObj []) else Inl (lit ''Unexpected token''))"

definition defaultInsights :: "int \<Rightarrow> jsstring \<Rightarrow> AIInsights" where
  "defaultInsights doneAt noteText =
     \<lparr>summary = JStr (lit ''No summary available.''), definitions = [],
      additionalContext = JStr [], studyQuestions = [], generatedAt = doneAt,
      contentHash = hashContent noteText\<rparr>"

definition exampleText :: jsstring where
  "exampleText = lit ''This are a sentence with a error.''"

section \<open>Facts about strings\<close>

lemma split_not_Nil: "split sep s \<noteq> []"
  by (induction s) (auto split: list.splits)

lemma hd_split: "hd (split sep s) = takeWhile (\<lambda>c. c \<noteq> sep) s"
  by (induction s) (auto split: list.splits simp: split_not_Nil)

lemma trimStart_no_leading: "trimStart s \<noteq> [] \<Longrightarrow> \<not> isWhiteSpace (hd (trimStart s))"
  unfolding trimStart_def by (simp add: hd_dropWhile)

lemma trimEnd_no_trailing: "trimEnd s \<noteq> [] \<Longrightarrow> \<not> isWhiteSpace (last (trimEnd s))"
  unfolding trimEnd_def by (simp add: last_rev hd_dropWhile)

lemma dropWhile_id: "xs \<noteq> [] \<Longrightarrow> \<not> P (hd xs) \<Longrightarrow> dropWhile P xs = xs"
  by (cases xs) auto

lemma hd_trimEnd:
  assumes "s \<noteq> []" and "\<not> isWhiteSpace (hd s)"
  shows "trimEnd s \<noteq> [] \<and> hd (trimEnd s) = hd s"
proof -
  obtain c cs where s: "s = c # cs" using assms(1) by (cases s) auto
  have c: "\<not> isWhiteSpace c" using assms(2) s by simp
  have "dropWhile isWhiteSpace (rev cs @ [c]) = dropWhile isWhiteSpace (rev cs) @ [c]"
    using c by (simp add: dropWhile_append3)
  then have "trimEnd s = c # rev (dropWhile isWhiteSpace (rev cs))"
    by (simp add: trimEnd_def s)
  then show ?thesis by (simp add: s)
qed

lemma trim_no_leading: "trim s \<noteq> [] \<Longrightarrow> \<not> isWhiteSpace (hd (trim s))"
proof -
  assume ne: "trim s \<noteq> []"
  then have t: "trimStart s \<noteq> []" by (auto simp: trim_def trimEnd_def)
  from hd_trimEnd [OF t trimStart_no_leading [OF t]] trimStart_no_leading [OF t]
  show ?thesis by (simp add: trim_def)
qed

lemma trim_no_trailing: "trim s \<noteq> [] \<Longrightarrow> \<not> isWhiteSpace (last (trim s))"
  unfolding trim_def by (rule trimEnd_no_trailing)

lemma trim_fixed:
  assumes "s \<noteq> []" "\<not> isWhiteSpace (hd s)" "\<not> isWhiteSpace (last s)"
  shows "trim s = s"
proof -
  have 1: "trimStart s = s"
    unfolding trimStart_def using assms(1,2) by (rule dropWhile_id)
  have "rev s \<noteq> []" "\<not> isWhiteSpace (hd (rev s))"
    using assms(1,3) by (simp_all add: hd_rev)
  then have "dropWhile isWhiteSpace (rev s) = rev s" by (rule dropWhile_id)
  then have "trimEnd s = s" by (simp add: trimEnd_def)
  with 1 show ?thesis by (simp add: trim_def)
qed

lemma trim_idem: "trim (trim s) = trim s"
proof (cases "trim s = []")
  case True
  have "trim [] = []" by (simp add: trim_def trimStart_def trimEnd_def)
  with True show ?thesis by simp
next
  case False
  then show ?thesis
    by (intro trim_fixed trim_no_leading trim_no_trailing)
qed

lemma trim_sublist: "sublist (trim s) s"
proof -
  have "suffix (trimStart s) s"
    unfolding trimStart_def by (rule suffix_dropWhile)
  moreover have "prefix (trimEnd t) t" for t
  proof -
    have "suffix (dropWhile isWhiteSpace (rev t)) (rev t)" by (rule suffix_dropWhile)
    then show ?thesis unfolding trimEnd_def by (simp add: suffix_to_prefix)
  qed
  ultimately show ?thesis
    unfolding trim_def using prefix_imp_sublist suffix_imp_sublist sublist_order.order_trans
    by blast
qed

section \<open>Title extraction: the claim\<close>

text \<open>
  C4. For every content string the recomputed title is the trimmed first line; it is
  the empty string when the trimmed first line is empty; and when the trimmed first
  line is longer than 50 characters it is its first 50 characters followed by the
  ellipsis marker \<open>...\<close>.
\<close>

theorem extractTitle_rule:
  "(trim (firstLineOf c) = [] \<longrightarrow> extractTitle c = []) \<and>
   (length (trim (firstLineOf c)) \<le> 50 \<longrightarrow>
      extractTitle c = trim (firstLineOf c)) \<and>
   (length (trim (firstLineOf c)) > 50 \<longrightarrow>
      extractTitle c = take 50 (trim (firstLineOf c)) @ lit ''...'' \<and>
      length (extractTitle c) = 53)"
  by (auto simp: extractTitle_def firstLineOf_def hd_split Let_def lit_def)

theorem extractTitle_rule_witness:
  "length (trim (firstLineOf (lit ''  Hello world  ''))) \<le> 50 \<and>
   extractTitle (lit ''  Hello world  '') = lit ''Hello world''"
proof -
  have t: "trim (firstLineOf (lit ''  Hello world  '')) = lit ''Hello world''"
    by (simp add: firstLineOf_def trim_def trimStart_def trimEnd_def lit_def
        isWhiteSpace_def newline_def)
  have l: "length (trim (firstLineOf (lit ''  Hello world  ''))) \<le> 50"
    by (simp only: t) (simp add: lit_def)
  from extractTitle_rule [of "lit ''  Hello world  ''"] l t show ?thesis by simp
qed

section \<open>Literals\<close>

lemma unat_of_char: "unat (of_char x :: 16 word) = of_char x"
proof -
  have "(of_char x :: nat) < 256" by simp
  then have lt: "(of_char x :: nat) < 65536" by linarith
  have "unat (of_nat (of_char x) :: 16 word) = of_char x mod 2 ^ 16"
    by (simp add: unat_of_nat)
  with lt show ?thesis by (simp add: of_nat_of_char)
qed

lemma inj_of_char16: "inj (of_char :: char \<Rightarrow> 16 word)"
proof (rule injI)
  fix c d :: char
  assume "(of_char c :: 16 word) = of_char d"
  then have "unat (of_char c :: 16 word) = unat (of_char d :: 16 word)" by simp
  then have "(of_char c :: nat) = of_char d" by (simp only: unat_of_char)
  then show "c = d" by simp
qed

lemma lit_inj: "lit a = lit b \<longleftrightarrow> a = b"
  unfolding lit_def by (rule inj_map_eq_map [OF inj_of_char16])

section \<open>Tag suggestion: the claim\<close>

text \<open>
  C10. For every response text of the endpoint, \<open>suggestTags\<close> returns at most 5 tags,
  and every returned tag is a trimmed, non-empty string shorter than 30 characters,
  the trimmed form of one of the comma-separated pieces of the text.
\<close>

theorem suggestTags_tags:
  "suggestTags (Success txt) = Inr (parseTags txt) \<and>
   length (parseTags txt) \<le> 5 \<and>
   (\<forall>t \<in> set (parseTags txt).
      trim t = t \<and> t \<noteq> [] \<and> length t < 30 \<and> t \<in> trim ` set (split comma txt))"
proof -
  have "t \<in> set (parseTags txt) \<Longrightarrow>
        trim t = t \<and> t \<noteq> [] \<and> length t < 30 \<and> t \<in> trim ` set (split comma txt)" for t
  proof -
    assume "t \<in> set (parseTags txt)"
    then have "t \<in> set (filter (\<lambda>tag. length tag > 0 \<and> length tag < 30) (map trim (split comma txt)))"
      unfolding parseTags_def by (rule in_set_takeD)
    then show ?thesis by (auto simp: trim_idem)
  qed
  then have q: "\<forall>t \<in> set (parseTags txt).
      trim t = t \<and> t \<noteq> [] \<and> length t < 30 \<and> t \<in> trim ` set (split comma txt)" by blast
  have l: "length (parseTags txt) \<le> 5" by (simp add: parseTags_def)
  have s: "suggestTags (Success txt) = Inr (parseTags txt)"
    by (simp add: suggestTags_def generateText_def)
  from s l q show ?thesis by (intro conjI)
qed

theorem suggestTags_tags_witness:
  "lit ''b'' \<in> set (parseTags (lit ''a, b ,, c'')) \<and> trim (lit ''b'') = lit ''b'' \<and>
   length (lit ''b'') < 30"
proof -
  have m: "lit ''b'' \<in> set (parseTags (lit ''a, b ,, c''))"
    by (simp add: parseTags_def lit_def comma_def trim_def trimStart_def trimEnd_def isWhiteSpace_def)
  have "\<forall>t \<in> set (parseTags (lit ''a, b ,, c'')). trim t = t \<and> t \<noteq> [] \<and> length t < 30 \<and>
          t \<in> trim ` set (split comma (lit ''a, b ,, c''))"
    using suggestTags_tags [of "lit ''a, b ,, c''"] by (elim conjE)
  from bspec [OF this m] m show ?thesis by (elim conjE) (intro conjI)
qed

section \<open>Facts about the registry\<close>

lemma findIndex_find:
  "findIndex P xs = Some k \<Longrightarrow> k < length xs \<and> find P xs = Some (xs ! k) \<and> P (xs ! k)"
proof (induction xs arbitrary: k)
  case Nil
  then show ?case by simp
next
  case (Cons x xs)
  then show ?case by (cases "P x") auto
qed

lemma find_findIndex:
  "find P xs = Some x \<Longrightarrow> \<exists>k. findIndex P xs = Some k \<and> xs ! k = x"
proof (induction xs)
  case Nil
  then show ?case by simp
next
  case (Cons y ys)
  then show ?case by (cases "P y") auto
qed

lemma findIndex_None: "find P xs = None \<Longrightarrow> findIndex P xs = None"
  by (induction xs) (auto split: if_splits)

lemma find_update_hit: "findIndex P xs = Some k \<Longrightarrow> P y \<Longrightarrow> find P (xs[k := y]) = Some y"
proof (induction xs arbitrary: k)
  case Nil
  then show ?case by simp
next
  case (Cons x xs)
  then show ?case by (cases "P x") auto
qed


lemma numOr_Some_0: "numOr (Some x) 0 = x"
  by simp


lemma plusOne_2_53: "plusOne (2 ^ 53) = 2 ^ 53"
  by (simp add: plusOne_def)

lemma versionOf_saveAndPost: "versionOf i (saveAndPost ok n now s) = versionOf i s"
  by (simp add: versionOf_def saveAndPost_def postMessage_def split: sum.splits)


lemma versionOf_rename:
  assumes "versionOf i s = Some v"
  shows "versionOf i (handleRenameNote ok i t now s) = Some (plusOne v)"
proof -
  from assms obtain n where n: "find (\<lambda>n. note_id n = i) (noteList s) = Some n"
    and v: "v = numOr (version n) 0"
    by (auto simp: versionOf_def)
  from find_findIndex [OF n] obtain k where k: "findIndex (\<lambda>n. note_id n = i) (noteList s) = Some k"
    and nk: "noteList s ! k = n" by blast
  from findIndex_find [OF k] nk have i: "note_id n = i" by simp
  let ?u = "n\<lparr>title := t, updatedAt := now, version := Some (plusOne (numOr (version n) 0))\<rparr>"
  have "find (\<lambda>n. note_id n = i) ((noteList s)[k := ?u]) = Some ?u"
    using k i by (intro find_update_hit) simp_all
  then have "versionOf i (s\<lparr>noteList := (noteList s)[k := ?u]\<rparr>) = Some (plusOne v)"
    by (simp add: versionOf_def v)
  then show ?thesis
    by (simp add: handleRenameNote_def k nk Let_def versionOf_saveAndPost)
qed








lemma persisted_saveAndPost:
  "persistedVersion (note_id n) (saveAndPost True n now s) = Some (plusOne (numOr (version n) 0))"
  by (simp add: persistedVersion_def saveAndPost_def saveNote_def postMessage_def toRecord_def)

lemma posted_saveAndPost:
  "posted (saveAndPost True n now s) =
     posted s @ [\<lparr>msg_noteId = note_id n, msg_version = version n, msg_timestamp = now\<rparr>]"
  by (simp add: saveAndPost_def saveNote_def postMessage_def)

lemma rename_saved:
  assumes "versionOf i s = Some v"
  shows "persistedVersion i (handleRenameNote True i t now s) = Some (plusOne (plusOne v)) \<and>
         posted (handleRenameNote True i t now s) =
           posted s @ [\<lparr>msg_noteId = i, msg_version = Some (plusOne v), msg_timestamp = now\<rparr>]"
proof -
  from assms obtain n where n: "find (\<lambda>n. note_id n = i) (noteList s) = Some n"
    and v: "v = numOr (version n) 0"
    by (auto simp: versionOf_def)
  from find_findIndex [OF n] obtain k where k: "findIndex (\<lambda>n. note_id n = i) (noteList s) = Some k"
    and nk: "noteList s ! k = n" by blast
  from findIndex_find [OF k] nk have i: "note_id n = i" by simp
  let ?u = "n\<lparr>title := t, updatedAt := now, version := Some (plusOne (numOr (version n) 0))\<rparr>"
  let ?s' = "s\<lparr>noteList := (noteList s)[k := ?u]\<rparr>"
  have e: "handleRenameNote True i t now s = saveAndPost True ?u now ?s'"
    by (simp add: handleRenameNote_def k nk Let_def)
  have "persistedVersion (note_id ?u) (saveAndPost True ?u now ?s') = Some (plusOne (numOr (version ?u) 0))"
    by (rule persisted_saveAndPost)
  then have p: "persistedVersion i (saveAndPost True ?u now ?s') = Some (plusOne (plusOne v))"
    by (simp add: i v)
  have q: "posted (saveAndPost True ?u now ?s') =
           posted s @ [\<lparr>msg_noteId = i, msg_version = Some (plusOne v), msg_timestamp = now\<rparr>]"
    unfolding posted_saveAndPost by (simp add: i v)
  from p q show ?thesis unfolding e by (intro conjI)
qed


lemma exampleApp_eq:
  "exampleApp = \<lparr>noteList = [exampleNote], activeNoteId = Some (lit ''n1''), conflict = None,
      currentSubject = General,
      db = [lit ''n1'' \<mapsto> toRecord (exampleNote\<lparr>version := Some 2\<rparr>)], posted = [], alerts = []\<rparr>"
  by (simp add: exampleApp_def exampleNote_def handleCreateNote_def saveNote_def newNote_def
      initialApp_def plusOne_def)

text \<open>
  At \<open>2^53\<close> the sum \<open>version + 1\<close> is \<open>2^53\<close> again: a rename then leaves the version
  of the registry, of the store and of the broadcast where it was.
\<close>

lemma rename_at_2_53:
  assumes "versionOf i s = Some (2 ^ 53)"
  shows "versionOf i (handleRenameNote True i t now s) = Some (2 ^ 53) \<and>
         persistedVersion i (handleRenameNote True i t now s) = Some (2 ^ 53) \<and>
         posted (handleRenameNote True i t now s) =
           posted s @ [\<lparr>msg_noteId = i, msg_version = Some (2 ^ 53), msg_timestamp = now\<rparr>]"
  using versionOf_rename [OF assms, of True t now] rename_saved [OF assms, of t now]
  by (simp add: plusOne_def)

section \<open>Versions: the claim\<close>




section \<open>Creation: the claim\<close>

text \<open>
  C2, as the code has it. When the save succeeds, \<open>handleCreateNote\<close> puts the new
  note, with version 1, empty title and content, no tags and subject \<open>general\<close>, at
  the front of the registry and makes it the active note; the record it persisted in
  the same step has the same fields but version 2, because \<open>saveNote\<close> increments
  the version it is given, and size 0. When the save fails the registry and the store
  stay as they were and an alert is shown.
\<close>

theorem create_note:
  "handleCreateNote True i now s =
     s\<lparr>db := (db s)(i \<mapsto> toRecord ((newNote i now)\<lparr>version := Some 2\<rparr>)),
       noteList := newNote i now # noteList s, activeNoteId := Some i\<rparr> \<and>
   version (newNote i now) = Some 1 \<and> title (newNote i now) = [] \<and>
   content (newNote i now) = [] \<and> tags (newNote i now) = Some [] \<and>
   subjectType (newNote i now) = Some General \<and>
   map_option version (db (handleCreateNote True i now s) i) = Some (Some 2) \<and>
   map_option title (db (handleCreateNote True i now s) i) = Some [] \<and>
   map_option content (db (handleCreateNote True i now s) i) = Some [] \<and>
   map_option subjectType (db (handleCreateNote True i now s) i) = Some (Some General) \<and>
   map_option sizeBytes (db (handleCreateNote True i now s) i) = Some 0 \<and>
   handleCreateNote False i now s =
     s\<lparr>alerts := alerts s @ [lit ''Failed to create note. Please try again.'']\<rparr>"
  by (simp add: handleCreateNote_def saveNote_def newNote_def toRecord_def plusOne_def)

text \<open>C2 as stated fails: the persisted record of a new note does not have version 1.\<close>

theorem create_note_persists_version_2:
  "map_option version (db (handleCreateNote True (lit ''n1'') 0 initialApp) (lit ''n1'')) \<noteq> Some (Some 1)"
  by (simp add: handleCreateNote_def saveNote_def newNote_def toRecord_def initialApp_def plusOne_def)

section \<open>Conflict detection: the claim\<close>

text \<open>
  C3. For a broadcast whose note id is the active note's, with the registry holding
  version \<open>v\<close> of that note and the broadcast carrying version \<open>v'\<close>: when \<open>v' > v\<close>
  the handler raises the conflict flag with \<open>v'\<close> as the external version; when
  \<open>v' \<le> v\<close> it leaves the state as it is.
\<close>

theorem conflict_iff:
  assumes "activeNoteId s = Some (msg_noteId m)"
      and "find (\<lambda>n. note_id n = msg_noteId m) (noteList s) = Some n"
      and "version n = Some v" and "msg_version m = Some v'"
  shows "(v' > v \<longrightarrow> onMessage m s =
              s\<lparr>conflict := Some \<lparr>hasConflict = True, externalVersion = Some v'\<rparr>\<rparr>) \<and>
         (v' \<le> v \<longrightarrow> onMessage m s = s)"
  using assms by (simp add: onMessage_def)

theorem conflict_iff_witness:
  "onMessage \<lparr>msg_noteId = lit ''n1'', msg_version = Some 2, msg_timestamp = 5\<rparr> exampleApp =
     exampleApp\<lparr>conflict := Some \<lparr>hasConflict = True, externalVersion = Some 2\<rparr>\<rparr> \<and>
   onMessage \<lparr>msg_noteId = lit ''n1'', msg_version = Some 1, msg_timestamp = 5\<rparr> exampleApp = exampleApp"
proof -
  have a: "activeNoteId exampleApp = Some (lit ''n1'')" by (simp add: exampleApp_eq)
  have f: "find (\<lambda>n. note_id n = lit ''n1'') (noteList exampleApp) = Some exampleNote"
    by (simp add: exampleApp_eq exampleNote_def newNote_def)
  have v: "version exampleNote = Some 1" by (simp add: exampleNote_def newNote_def)
  from conflict_iff [of exampleApp "\<lparr>msg_noteId = lit ''n1'', msg_version = Some 2, msg_timestamp = 5\<rparr>"
        exampleNote 1 2]
       conflict_iff [of exampleApp "\<lparr>msg_noteId = lit ''n1'', msg_version = Some 1, msg_timestamp = 5\<rparr>"
        exampleNote 1 1] a f v
  show ?thesis by simp
qed

section \<open>Facts about notes as JSON\<close>

















lemma typeof_TString_iff: "typeof x = TString \<longleftrightarrow> (\<exists>v. x = Some (JStr v))"
  by (cases x rule: typeof.cases) simp_all

lemma typeof_TNumber_iff: "typeof x = TNumber \<longleftrightarrow> (\<exists>v. x = Some (JNum v))"
  by (cases x rule: typeof.cases) simp_all

lemma isArray_iff: "isArray x \<longleftrightarrow> (\<exists>xs. x = Some (JArr xs))"
  by (cases x rule: isArray.cases) simp_all

lemma validNote_iff:
  "validNote n \<longleftrightarrow>
     (\<exists>kvs i t c u. n = JObj kvs \<and> field n ''id'' = Some (JStr i) \<and>
        field n ''title'' = Some (JStr t) \<and> field n ''content'' = Some (JStr c) \<and>
        field n ''updatedAt'' = Some (JNum u))"
  by (cases n) (simp_all add: validNote_def typeof_TString_iff typeof_TNumber_iff)

lemma validateImportData_iff:
  "validateImportData data \<longleftrightarrow>
     (\<exists>kvs v e ns. data = JObj kvs \<and> field data ''version'' = Some (JStr v) \<and>
        field data ''exportedAt'' = Some (JStr e) \<and> field data ''notes'' = Some (JArr ns) \<and>
        (\<forall>n \<in> set ns. validNote n))"
proof (cases data)
  case (JObj kvs)
  show ?thesis
    unfolding validateImportData_def JObj
    by (auto simp: typeof_TString_iff isArray_iff list_all_iff)
qed (simp_all add: validateImportData_def)

lemma invalid_note_invalid_file:
  assumes "bad \<in> set (notesOf data)" and "\<not> validNote bad"
  shows "\<not> validateImportData data"
proof
  assume "validateImportData data"
  then obtain ns where "field data ''notes'' = Some (JArr ns)" and all: "\<forall>n \<in> set ns. validNote n"
    unfolding validateImportData_iff by blast
  then have "notesOf data = ns" by (simp add: notesOf_def)
  with assms all show False by simp
qed

lemma handleImport_invalid:
  assumes "parse f = Inr data" and "\<not> validateImportData data"
  shows "handleImport parse clearOk saveOk f mode s =
         Some (s\<lparr>alerts := alerts s @
           [lit ''Import failed: '' @
            lit ''Invalid file format. Expected valid JSON with notes array.'']\<rparr>)"
  using assms by (simp add: handleImport_def importNotes_def)


section \<open>Import validation: the claim\<close>

text \<open>
  C9. A parsed file passes \<open>validateImportData\<close> exactly when it is an object whose
  \<open>version\<close> and \<open>exportedAt\<close> are strings and whose \<open>notes\<close> is an array of objects
  each with string \<open>id\<close>, \<open>title\<close> and \<open>content\<close> and numeric \<open>updatedAt\<close>. When the
  file does not pass, and so when any single note of it fails the check, the whole
  import fails: the registry and the store stay as they were and the only effect is
  the alert with the message.
\<close>

theorem import_fails_closed:
  assumes "parse f = Inr data"
  shows "(validateImportData data \<longleftrightarrow>
            (\<exists>kvs v e ns. data = JObj kvs \<and> field data ''version'' = Some (JStr v) \<and>
               field data ''exportedAt'' = Some (JStr e) \<and> field data ''notes'' = Some (JArr ns) \<and>
               (\<forall>n \<in> set ns. \<exists>nkvs i t c u. n = JObj nkvs \<and> field n ''id'' = Some (JStr i) \<and>
                  field n ''title'' = Some (JStr t) \<and> field n ''content'' = Some (JStr c) \<and>
                  field n ''updatedAt'' = Some (JNum u)))) \<and>
         ((\<not> validateImportData data \<or> (\<exists>bad \<in> set (notesOf data). \<not> validNote bad)) \<longrightarrow>
            handleImport parse clearOk saveOk f mode s =
              Some (s\<lparr>alerts := alerts s @
                [lit ''Import failed: '' @
                 lit ''Invalid file format. Expected valid JSON with notes array.'']\<rparr>))"
proof (intro conjI impI)
  show "validateImportData data \<longleftrightarrow>
            (\<exists>kvs v e ns. data = JObj kvs \<and> field data ''version'' = Some (JStr v) \<and>
               field data ''exportedAt'' = Some (JStr e) \<and> field data ''notes'' = Some (JArr ns) \<and>
               (\<forall>n \<in> set ns. \<exists>nkvs i t c u. n = JObj nkvs \<and> field n ''id'' = Some (JStr i) \<and>
                  field n ''title'' = Some (JStr t) \<and> field n ''content'' = Some (JStr c) \<and>
                  field n ''updatedAt'' = Some (JNum u)))"
    unfolding validateImportData_iff validNote_iff ..
next
  assume "\<not> validateImportData data \<or> (\<exists>bad \<in> set (notesOf data). \<not> validNote bad)"
  then have "\<not> validateImportData data"
    using invalid_note_invalid_file by blast
  with assms show "handleImport parse clearOk saveOk f mode s =
              Some (s\<lparr>alerts := alerts s @
                [lit ''Import failed: '' @
                 lit ''Invalid file format. Expected valid JSON with notes array.'']\<rparr>)"
    by (rule handleImport_invalid)
qed

theorem import_fails_closed_witness:
  "handleImport (\<lambda>f. Inr badFile) True True [] Merge exampleApp =
     Some (exampleApp\<lparr>alerts := alerts exampleApp @
       [lit ''Import failed: '' @
        lit ''Invalid file format. Expected valid JSON with notes array.'']\<rparr>)"
proof -
  have b: "JObj [(lit ''id'', JNum 7)] \<in> set (notesOf badFile)"
    by (simp add: badFile_def notesOf_def lit_inj)
  have n: "\<not> validNote (JObj [(lit ''id'', JNum 7)])"
    by (simp add: validNote_def)
  from import_fails_closed [of "\<lambda>f. Inr badFile" "[]" badFile True True Merge exampleApp] b n
  show ?thesis by blast
qed

section \<open>Facts about the JSON serialiser and parser\<close>

























section \<open>Export and import: the claim\<close>



section \<open>Facts about the insights service\<close>

lemma hashStep_31: "hashStep h c = 31 * h + ucast c"
  by (simp add: hashStep_def push_bit_eq_mult)

lemma hashContent_A: "hashContent (lit ''A'') = lit ''41''"
  by (simp add: hashContent_def hashStep_def showHex_def showHexNat.simps hexDigit_def lit_def)

lemma jsonText_plain:
  assumes "lbrace \<notin> set s" and "\<not> jsIncludes s fenceJson"
  shows "jsonText s = s"
proof -
  have f: "\<not> jsIncludes t fenceJson \<Longrightarrow> matchFence t = None" for t
    by (induction t) (auto simp: Let_def)
  have d: "dropWhile (\<lambda>c. c \<noteq> lbrace) s = []"
    using assms(1) by auto
  have "matchBraces s = None" unfolding matchBraces_def d by simp
  with f [OF assms(2)] show ?thesis by (simp add: jsonText_def)
qed

section \<open>Malformed insights answers: the claim\<close>

text \<open>
  C7. When the text the endpoint answered an insights request with holds no JSON
  that parses (\<open>JSON.parse\<close> throws on the text picked from it), \<open>generateInsights\<close>
  throws nothing and returns the summary \<open>No summary available.\<close>, no definitions,
  an empty additional context, no study questions, the time of the answer as
  \<open>generatedAt\<close> and the hash of the note's content as \<open>contentHash\<close>; the panel
  then hands the note with these insights to \<open>onUpdateNote\<close> and shows no error.
\<close>

theorem insights_fallback:
  assumes "parse (trim (jsonText answer)) = Inl err"
  shows "generateInsights parse doneAt noteText (Success answer) =
           Inr \<lparr>summary = JStr (lit ''No summary available.''), definitions = [],
                 additionalContext = JStr [], studyQuestions = [], generatedAt = doneAt,
                 contentHash = hashContent noteText\<rparr> \<and>
         (admit isRetry (Some n) Connected now p = Admitted \<longrightarrow>
            generate parse isRetry (Some n) Connected now (latency, Success answer) p =
              (p\<lparr>lastRequestTime := now, panelError := None, isRetrying := False,
                  insights := Some (defaultInsights (now + latency) (content n))\<rparr>,
               [Fetch OpInsights now,
                NoteUpdate (n\<lparr>aiInsights := Some (defaultInsights (now + latency) (content n))\<rparr>)],
               None))"
proof -
  have g: "generateInsights parse d x (Success answer) = Inr (defaultInsights d x)" for d x
    using assms by (simp add: generateInsights_def defaultInsights_def)
  show ?thesis
    by (simp add: g generate_def Let_def) (simp add: defaultInsights_def)
qed

theorem insights_fallback_witness:
  "generateInsights exampleParse 77 (lit ''A'') (Success (lit ''Sorry, I cannot help.'')) =
     Inr \<lparr>summary = JStr (lit ''No summary available.''), definitions = [],
           additionalContext = JStr [], studyQuestions = [], generatedAt = 77,
           contentHash = lit ''41''\<rparr> \<and>
   generate exampleParse False (Some exampleNote) Connected 5000
       (100, Success (lit ''Sorry, I cannot help.'')) initialPanel =
     (initialPanel\<lparr>lastRequestTime := 5000, panelError := None, isRetrying := False,
         insights := Some (defaultInsights 5100 [])\<rparr>,
      [Fetch OpInsights 5000,
       NoteUpdate (exampleNote\<lparr>aiInsights := Some (defaultInsights 5100 [])\<rparr>)],
      None)"
proof -
  have j: "jsonText (lit ''Sorry, I cannot help.'') = lit ''Sorry, I cannot help.''"
    by (rule jsonText_plain) (simp_all add: lit_def lbrace_def fenceJson_def fence_def)
  have t: "trim (lit ''Sorry, I cannot help.'') = lit ''Sorry, I cannot help.''"
    by (simp add: trim_def trimStart_def trimEnd_def lit_def isWhiteSpace_def)
  have p: "exampleParse (trim (jsonText (lit ''Sorry, I cannot help.''))) = Inl (lit ''Unexpected token'')"
    unfolding j t by (simp add: exampleParse_def lit_inj)
  have a: "admit False (Some exampleNote) Connected 5000 initialPanel = Admitted"
    by (simp add: admit_def initialPanel_def COOLDOWN_MS_def)
  have c: "content exampleNote = []" by (simp add: exampleNote_def newNote_def)
  from insights_fallback [where parse = exampleParse and answer = "lit ''Sorry, I cannot help.''"
      and doneAt = 77 and noteText = "lit ''A''" and isRetry = False and n = exampleNote
      and now = 5000 and p = initialPanel and latency = 100, OF p] a c
  show ?thesis by (simp add: hashContent_A)
qed

section \<open>Facts about the insights panel\<close>

lemma admit_retry: "admit True (Some n) Connected now p = Admitted"
  by (simp add: admit_def)

lemma generateInsights_error_time:
  "generateInsights parse d x r = Inl e \<Longrightarrow> generateInsights parse d' x r = Inl e"
  by (cases r) (auto simp: generateInsights_def Let_def split: if_splits)

lemma generateInsights_ok_time:
  "generateInsights parse d x r = Inr a \<Longrightarrow> \<exists>a'. generateInsights parse d' x r = Inr a'"
  by (cases r) (auto simp: generateInsights_def Let_def split: if_splits)

lemma generate_limited:
  assumes "admit isRetry (Some n) Connected now p = Admitted"
      and "takenAsRateLimit parse (content n) r"
  shows "generate parse isRetry (Some n) Connected now (latency, r) p =
           (p\<lparr>lastRequestTime := now, panelError := Some busyMessage, isRetrying := True\<rparr>,
            [Fetch OpInsights now, Shown OpInsights busyMessage],
            Some (now + latency + RETRY_DELAY_MS))"
proof -
  from assms(2) obtain e where e: "generateInsights parse 0 (content n) r = Inl e"
    and m: "isRateLimitMessage (errorMessage e)"
    by (auto simp: takenAsRateLimit_def split: sum.splits)
  from generateInsights_error_time [OF e]
  have "generateInsights parse (now + latency) (content n) r = Inl e" .
  with assms(1) m show ?thesis by (simp add: generate_def Let_def)
qed

lemma generate_fetches:
  assumes "admit isRetry (Some n) Connected now p = Admitted"
  shows "fetches (fst (snd (generate parse isRetry (Some n) Connected now answer p))) =
           [Fetch OpInsights now] \<and>
         lastRequestTime (fst (generate parse isRetry (Some n) Connected now answer p)) = now"
  using assms by (simp add: generate_def Let_def fetches_def split: sum.splits)

lemma runGenerate_limited:
  assumes "\<forall>a \<in> set answers. takenAsRateLimit parse (content n) (snd a)"
      and "admit isRetry (Some n) Connected now p = Admitted"
  shows "snd (runGenerate parse isRetry (Some n) Connected now answers p) =
           concat (map (\<lambda>t. [Fetch OpInsights t, Shown OpInsights busyMessage])
                    (butlast (callTimes now (map fst answers)))) @
           [Fetch OpInsights (last (callTimes now (map fst answers)))]"
  using assms
proof (induction answers arbitrary: isRetry now p)
  case Nil
  then show ?case by simp
next
  case (Cons a answers)
  obtain latency r where a: "a = (latency, r)" by (cases a)
  from Cons.prems(1) a have r: "takenAsRateLimit parse (content n) r" by simp
  from Cons.prems(1) have rest: "\<forall>a \<in> set answers. takenAsRateLimit parse (content n) (snd a)"
    by simp
  let ?p' = "p\<lparr>lastRequestTime := now, panelError := Some busyMessage, isRetrying := True\<rparr>"
  let ?t = "now + latency + RETRY_DELAY_MS"
  have ne: "callTimes ?t (map fst answers) \<noteq> []"
    by (cases answers) simp_all
  from Cons.IH [OF rest admit_retry, of ?t ?p']
  have ih: "snd (runGenerate parse True (Some n) Connected ?t answers ?p') =
           concat (map (\<lambda>t. [Fetch OpInsights t, Shown OpInsights busyMessage])
                    (butlast (callTimes ?t (map fst answers)))) @
           [Fetch OpInsights (last (callTimes ?t (map fst answers)))]" .
  show ?case
    unfolding a
    by (simp add: generate_limited [OF Cons.prems(2) r] ih ne case_prod_beta)
qed

lemma length_callTimes: "length (callTimes now ls) = Suc (length ls)"
  by (induction ls arbitrary: now) simp_all

lemma fetches_append: "fetches (xs @ ys) = fetches xs @ fetches ys"
  by (simp add: fetches_def)

lemma fetches_retry_pairs:
  "fetches (concat (map (\<lambda>t. [Fetch OpInsights t, Shown OpInsights busyMessage]) ts)) =
     map (Fetch OpInsights) ts"
  by (induction ts) (simp_all add: fetches_def)

lemma runGenerate_limited_fetches:
  assumes "\<forall>a \<in> set answers. takenAsRateLimit parse (content n) (snd a)"
      and "admit isRetry (Some n) Connected now p = Admitted"
  shows "fetches (snd (runGenerate parse isRetry (Some n) Connected now answers p)) =
           map (Fetch OpInsights) (callTimes now (map fst answers))"
proof -
  have ne: "callTimes now (map fst answers) \<noteq> []"
    by (cases answers) simp_all
  have "fetches (snd (runGenerate parse isRetry (Some n) Connected now answers p)) =
          map (Fetch OpInsights) (butlast (callTimes now (map fst answers))) @
          [Fetch OpInsights (last (callTimes now (map fst answers)))]"
    unfolding runGenerate_limited [OF assms] fetches_append fetches_retry_pairs
    by (simp add: fetches_def)
  also have "\<dots> = map (Fetch OpInsights) (butlast (callTimes now (map fst answers)) @
                [last (callTimes now (map fst answers))])"
    by simp
  also have "\<dots> = map (Fetch OpInsights) (callTimes now (map fst answers))"
    using ne by simp
  finally show ?thesis .
qed

lemma takenAsRateLimit_endpoint: "takenAsRateLimit parse x rateLimitedAnswer"
  by (simp add: takenAsRateLimit_def rateLimitedAnswer_def generateInsights_def
      endpointRateLimitMessage_def isRateLimitMessage_def toLowerCase_def lit_def)

lemma takenAsRateLimit_default: "takenAsRateLimit parse x (RateLimited None)"
  by (simp add: takenAsRateLimit_def generateInsights_def
      isRateLimitMessage_def toLowerCase_def lit_def)
lemma shown_retry_pairs:
  "filter isShown (concat (map (\<lambda>t. [Fetch OpInsights t, Shown OpInsights busyMessage]) ts)) =
     replicate (length ts) (Shown OpInsights busyMessage)"
  by (induction ts) simp_all

lemma runGenerate_limited_shown:
  assumes "\<forall>a \<in> set answers. takenAsRateLimit parse (content n) (snd a)"
      and "admit isRetry (Some n) Connected now p = Admitted"
  shows "filter isShown (snd (runGenerate parse isRetry (Some n) Connected now answers p)) =
           replicate (length answers) (Shown OpInsights busyMessage)"
  unfolding runGenerate_limited [OF assms]
  by (simp add: shown_retry_pairs length_callTimes)

lemma strOr_nonempty: "d \<noteq> [] \<Longrightarrow> strOr m d \<noteq> []"
  by (cases m) simp_all

lemma rateLimitText_nonempty: "strOr m (lit ''Rate limited. Please wait a moment.'') \<noteq> []"
  by (rule strOr_nonempty) (simp add: lit_def)

lemma summary_rate_limited:
  "handleGenerateSummary (Some n) Connected now doneAt (RateLimited m) =
     [Fetch OpSummary now, Shown OpSummary (strOr m (lit ''Rate limited. Please wait a moment.''))]"
  using rateLimitText_nonempty [of m]
  by (simp add: handleGenerateSummary_def worker_def generateSummary_def generateText_def)

lemma tags_rate_limited:
  "handleSuggestTags (Some n) Connected now (RateLimited m) =
     [Fetch OpTags now, Shown OpTags (strOr m (lit ''Rate limited. Please wait a moment.''))]"
  using rateLimitText_nonempty [of m]
  by (simp add: handleSuggestTags_def worker_def suggestTags_def generateText_def)

lemma continuation_rate_limited:
  "trim txt \<noteq> [] \<Longrightarrow>
   generateContinuation (Some n) Connected txt now (RateLimited m) =
     [Fetch OpContinuation now, GhostCleared]"
  by (simp add: generateContinuation_def worker_def continueWriting_def generateText_def)

lemma grammar_rate_limited:
  "length (trim txt) > 20 \<Longrightarrow> grammarCooldown g \<le> 0 \<Longrightarrow>
   checkGrammar Connected txt now (RateLimited m) g =
     (g\<lparr>lastCheckTime := now, grammarCooldown := 3\<rparr>,
      [Fetch OpGrammar now, Shown OpGrammar (lit ''Rate limited. Please wait a moment.'')])"
  by (simp add: checkGrammar_def)

lemma trim_exampleText: "trim exampleText = exampleText"
  by (simp add: exampleText_def trim_def trimStart_def trimEnd_def lit_def isWhiteSpace_def)

lemma length_exampleText: "length exampleText = 33"
  by (simp add: exampleText_def lit_def)

section \<open>Rate limits: the claim\<close>

text \<open>
  C6, as the code has it. When an insights request that was sent is answered with
  what the panel takes as a rate limit, the panel shows \<open>Service busy, retrying in
  3 seconds...\<close> in place of the error and calls again 3000 ms after the answer,
  past the cooldown; it does so after every such answer, so that answers that are
  all rate limits are followed by as many retries. For a summary or a tag request a
  rate-limit answer costs one call and puts the error message on the screen; for a
  grammar check likewise, with the fixed message; for a continuation it costs one
  call and clears the ghost text. None of the four calls again.
\<close>

theorem rate_limit_handling:
  assumes "\<forall>a \<in> set answers. takenAsRateLimit parse (content n) (snd a)"
      and "admit isRetry (Some n) Connected now p = Admitted"
  shows "fetches (snd (runGenerate parse isRetry (Some n) Connected now answers p)) =
           map (Fetch OpInsights) (callTimes now (map fst answers)) \<and>
         length (fetches (snd (runGenerate parse isRetry (Some n) Connected now answers p))) =
           length answers + 1 \<and>
         filter isShown (snd (runGenerate parse isRetry (Some n) Connected now answers p)) =
           replicate (length answers) (Shown OpInsights busyMessage) \<and>
         handleGenerateSummary (Some n) Connected now doneAt (RateLimited m) =
           [Fetch OpSummary now,
            Shown OpSummary (strOr m (lit ''Rate limited. Please wait a moment.''))] \<and>
         handleSuggestTags (Some n) Connected now (RateLimited m) =
           [Fetch OpTags now,
            Shown OpTags (strOr m (lit ''Rate limited. Please wait a moment.''))] \<and>
         (trim txt \<noteq> [] \<longrightarrow>
            generateContinuation (Some n) Connected txt now (RateLimited m) =
              [Fetch OpContinuation now, GhostCleared]) \<and>
         (length (trim txt) > 20 \<and> grammarCooldown g \<le> 0 \<longrightarrow>
            checkGrammar Connected txt now (RateLimited m) g =
              (g\<lparr>lastCheckTime := now, grammarCooldown := 3\<rparr>,
               [Fetch OpGrammar now,
                Shown OpGrammar (lit ''Rate limited. Please wait a moment.'')]))"
proof -
  have l: "length (fetches (snd (runGenerate parse isRetry (Some n) Connected now answers p))) =
           length answers + 1"
    unfolding runGenerate_limited_fetches [OF assms] by (simp add: length_callTimes)
  from runGenerate_limited_fetches [OF assms] l runGenerate_limited_shown [OF assms]
    summary_rate_limited tags_rate_limited continuation_rate_limited grammar_rate_limited
  show ?thesis by (intro conjI impI) (simp_all only:)
qed

theorem rate_limit_handling_witness:
  "fetches (snd (runGenerate exampleParse False (Some exampleNote) Connected 10000
       [(100, rateLimitedAnswer)] initialPanel)) =
     [Fetch OpInsights 10000, Fetch OpInsights 13100] \<and>
   filter isShown (snd (runGenerate exampleParse False (Some exampleNote) Connected 10000
       [(100, rateLimitedAnswer)] initialPanel)) = [Shown OpInsights busyMessage] \<and>
   generateContinuation (Some exampleNote) Connected exampleText 10000 (RateLimited None) =
     [Fetch OpContinuation 10000, GhostCleared] \<and>
   checkGrammar Connected exampleText 10000 (RateLimited None) initialGrammar =
     (initialGrammar\<lparr>lastCheckTime := 10000, grammarCooldown := 3\<rparr>,
      [Fetch OpGrammar 10000, Shown OpGrammar (lit ''Rate limited. Please wait a moment.'')])"
proof -
  have a: "\<forall>a \<in> set [(100, rateLimitedAnswer)].
             takenAsRateLimit exampleParse (content exampleNote) (snd a)"
    by (simp add: takenAsRateLimit_endpoint)
  have b: "admit False (Some exampleNote) Connected 10000 initialPanel = Admitted"
    by (simp add: admit_def initialPanel_def COOLDOWN_MS_def)
  have t: "trim exampleText \<noteq> []" "length (trim exampleText) > 20"
    by (simp_all add: trim_exampleText length_exampleText flip: length_0_conv)
  have g: "grammarCooldown initialGrammar \<le> 0" by (simp add: initialGrammar_def)
  from rate_limit_handling [OF a b, of 10100 None exampleText initialGrammar] t g
  show ?thesis by (simp add: RETRY_DELAY_MS_def)
qed

text \<open>
  C6 as stated fails: when the retry is rate-limited as well, the panel retries again.
\<close>

theorem insights_retries_again:
  "fetches (snd (runGenerate exampleParse False (Some exampleNote) Connected 10000
       [(100, rateLimitedAnswer), (100, rateLimitedAnswer)] initialPanel)) =
     [Fetch OpInsights 10000, Fetch OpInsights 13100, Fetch OpInsights 16200]"
proof -
  have a: "\<forall>a \<in> set [(100, rateLimitedAnswer), (100, rateLimitedAnswer)].
             takenAsRateLimit exampleParse (content exampleNote) (snd a)"
    by (simp add: takenAsRateLimit_endpoint)
  have b: "admit False (Some exampleNote) Connected 10000 initialPanel = Admitted"
    by (simp add: admit_def initialPanel_def COOLDOWN_MS_def)
  from runGenerate_limited_fetches [OF a b] show ?thesis by (simp add: RETRY_DELAY_MS_def)
qed

section \<open>Facts about the cooldown gates\<close>

lemma ceilSeconds_le_0: "ceilSeconds x \<le> 0 \<longleftrightarrow> x \<le> 0"
proof -
  have "0 \<le> (- x) div 1000 \<longleftrightarrow> 0 \<le> - x"
    by (rule pos_imp_zdiv_nonneg_iff) simp
  then show ?thesis by (simp add: ceilSeconds_def)
qed

lemma generate_rejected:
  assumes "now - lastRequestTime p < COOLDOWN_MS"
  shows "generate parse False (Some n) Connected now answer p =
           (p\<lparr>panelError := Some (waitMessage (now - lastRequestTime p))\<rparr>,
            [Shown OpInsights (waitMessage (now - lastRequestTime p))], None)"
  using assms by (simp add: generate_def admit_def Let_def)

lemma admit_after_cooldown:
  "COOLDOWN_MS \<le> now - lastRequestTime p \<Longrightarrow> admit False (Some n) Connected now p = Admitted"
  by (simp add: admit_def Let_def)

lemma summary_fetches:
  "fetches (handleGenerateSummary (Some n) Connected now doneAt r) = [Fetch OpSummary now]"
  by (simp add: handleGenerateSummary_def fetches_def split: WorkerResponse.splits WorkerData.splits)

lemma tags_fetches:
  "fetches (handleSuggestTags (Some n) Connected now r) = [Fetch OpTags now]"
  by (simp add: handleSuggestTags_def fetches_def split: WorkerResponse.splits WorkerData.splits)

lemma continuation_fetches:
  "trim txt \<noteq> [] \<Longrightarrow>
   fetches (generateContinuation (Some n) Connected txt now r) = [Fetch OpContinuation now]"
  by (simp add: generateContinuation_def fetches_def split: WorkerResponse.splits)

lemma grammar_gate:
  assumes "length (trim txt) > 20" and "aiStatus \<noteq> Offline"
  shows "(grammarCooldown g > 0 \<longrightarrow> checkGrammar aiStatus txt now r g = (g, [])) \<and>
         (grammarCooldown g \<le> 0 \<longrightarrow>
            fetches (snd (checkGrammar aiStatus txt now r g)) = [Fetch OpGrammar now] \<and>
            fst (checkGrammar aiStatus txt now r g) = g\<lparr>lastCheckTime := now, grammarCooldown := 3\<rparr>)"
  using assms by (cases r) (simp_all add: checkGrammar_def fetches_def)

lemma grammarTick_zero:
  "grammarCooldown (grammarTick now g) = 0 \<longleftrightarrow> COOLDOWN_MS \<le> now - lastCheckTime g"
proof -
  have "ceilSeconds (COOLDOWN_MS - (now - lastCheckTime g)) \<le> 0 \<longleftrightarrow>
        COOLDOWN_MS \<le> now - lastCheckTime g"
    unfolding ceilSeconds_le_0 by linarith
  then show ?thesis
    by (auto simp: grammarTick_def Let_def)
qed

lemma waitMessage_2000: "waitMessage 1000 = lit ''Please wait 2s between requests''"
  by (simp add: waitMessage_def COOLDOWN_MS_def ceilSeconds_def showInt_def showNat.simps
      digitChar_def lit_def)

section \<open>Cooldown: the claim\<close>

text \<open>
  C5, as the code has it. The insights panel keeps 3000 ms between its own requests:
  a request that is no retry, made less than 3000 ms after the panel's last request,
  is turned down with \<open>Please wait Ns between requests\<close> and no call; made 3000 ms
  after it or later it is sent, and its time becomes the time of the last request.
  A summary, a tag and a continuation request are sent whatever the time. The grammar
  checker is gated by its own countdown, which a check sets to 3 and the checker's
  timer brings to 0 once 3000 ms have passed since the checker's own last check.
\<close>

theorem cooldown_per_component:
  "(now - lastRequestTime p < COOLDOWN_MS \<longrightarrow>
      generate parse False (Some n) Connected now answer p =
        (p\<lparr>panelError := Some (waitMessage (now - lastRequestTime p))\<rparr>,
         [Shown OpInsights (waitMessage (now - lastRequestTime p))], None)) \<and>
   (COOLDOWN_MS \<le> now - lastRequestTime p \<longrightarrow>
      fetches (fst (snd (generate parse False (Some n) Connected now answer p))) =
        [Fetch OpInsights now] \<and>
      lastRequestTime (fst (generate parse False (Some n) Connected now answer p)) = now) \<and>
   fetches (handleGenerateSummary (Some n) Connected now doneAt r) = [Fetch OpSummary now] \<and>
   fetches (handleSuggestTags (Some n) Connected now r) = [Fetch OpTags now] \<and>
   (trim txt \<noteq> [] \<longrightarrow>
      fetches (generateContinuation (Some n) Connected txt now r) = [Fetch OpContinuation now]) \<and>
   (length (trim txt) > 20 \<and> aiStatus \<noteq> Offline \<longrightarrow>
      (grammarCooldown g > 0 \<longrightarrow> checkGrammar aiStatus txt now r g = (g, [])) \<and>
      (grammarCooldown g \<le> 0 \<longrightarrow>
         fetches (snd (checkGrammar aiStatus txt now r g)) = [Fetch OpGrammar now] \<and>
         fst (checkGrammar aiStatus txt now r g) = g\<lparr>lastCheckTime := now, grammarCooldown := 3\<rparr>)) \<and>
   (grammarCooldown (grammarTick now g) = 0 \<longleftrightarrow> COOLDOWN_MS \<le> now - lastCheckTime g)"
proof -
  have a: "COOLDOWN_MS \<le> now - lastRequestTime p \<longrightarrow>
      fetches (fst (snd (generate parse False (Some n) Connected now answer p))) =
        [Fetch OpInsights now] \<and>
      lastRequestTime (fst (generate parse False (Some n) Connected now answer p)) = now"
    using generate_fetches [OF admit_after_cooldown] by (intro impI)
  have b: "length (trim txt) > 20 \<and> aiStatus \<noteq> Offline \<longrightarrow>
      (grammarCooldown g > 0 \<longrightarrow> checkGrammar aiStatus txt now r g = (g, [])) \<and>
      (grammarCooldown g \<le> 0 \<longrightarrow>
         fetches (snd (checkGrammar aiStatus txt now r g)) = [Fetch OpGrammar now] \<and>
         fst (checkGrammar aiStatus txt now r g) = g\<lparr>lastCheckTime := now, grammarCooldown := 3\<rparr>)"
    using grammar_gate by (intro impI) (elim conjE)
  have c: "now - lastRequestTime p < COOLDOWN_MS \<longrightarrow>
      generate parse False (Some n) Connected now answer p =
        (p\<lparr>panelError := Some (waitMessage (now - lastRequestTime p))\<rparr>,
         [Shown OpInsights (waitMessage (now - lastRequestTime p))], None)"
    using generate_rejected by (intro impI)
  have d: "trim txt \<noteq> [] \<longrightarrow>
      fetches (generateContinuation (Some n) Connected txt now r) = [Fetch OpContinuation now]"
    using continuation_fetches by (intro impI)
  from c a summary_fetches tags_fetches d b grammarTick_zero
  show ?thesis by (intro conjI)
qed

theorem cooldown_per_component_witness:
  "generate exampleParse False (Some exampleNote) Connected 11000 (100, Success [])
       (initialPanel\<lparr>lastRequestTime := 10000\<rparr>) =
     (initialPanel\<lparr>lastRequestTime := 10000,
         panelError := Some (lit ''Please wait 2s between requests'')\<rparr>,
      [Shown OpInsights (lit ''Please wait 2s between requests'')], None) \<and>
   fetches (fst (snd (generate exampleParse False (Some exampleNote) Connected 13000 (100, Success [])
       (initialPanel\<lparr>lastRequestTime := 10000\<rparr>)))) = [Fetch OpInsights 13000] \<and>
   fetches (generateContinuation (Some exampleNote) Connected exampleText 10001 (Success [])) =
     [Fetch OpContinuation 10001] \<and>
   checkGrammar Connected exampleText 10001 (Success [])
       (initialGrammar\<lparr>lastCheckTime := 10000, grammarCooldown := 3\<rparr>) =
     (initialGrammar\<lparr>lastCheckTime := 10000, grammarCooldown := 3\<rparr>, []) \<and>
   fetches (snd (checkGrammar Connected exampleText 10001 (Success []) initialGrammar)) =
     [Fetch OpGrammar 10001]"
proof -
  let ?p = "initialPanel\<lparr>lastRequestTime := 10000\<rparr>"
  let ?g = "initialGrammar\<lparr>lastCheckTime := 10000, grammarCooldown := 3\<rparr>"
  have t: "trim exampleText \<noteq> []"
    using length_exampleText by (auto simp: trim_exampleText)
  have t20: "length (trim exampleText) > 20 \<and> Connected \<noteq> Offline"
    by (simp add: trim_exampleText length_exampleText)
  have early: "11000 - lastRequestTime ?p < COOLDOWN_MS"
    by (simp add: COOLDOWN_MS_def)
  have e: "11000 - lastRequestTime ?p = 1000" by simp
  have late: "COOLDOWN_MS \<le> 13000 - lastRequestTime ?p"
    by (simp add: COOLDOWN_MS_def)
  have g1: "grammarCooldown ?g > 0" by simp
  have g2: "grammarCooldown initialGrammar \<le> 0" by (simp add: initialGrammar_def)
  note early_th = cooldown_per_component [of 11000 ?p exampleParse exampleNote "(100, Success [])"
        11000 "Success []" exampleText Connected ?g]
  note late_th = cooldown_per_component [of 13000 ?p exampleParse exampleNote "(100, Success [])"
        13000 "Success []" exampleText Connected ?g]
  note busy_th = cooldown_per_component [of 10001 ?p exampleParse exampleNote "(100, Success [])"
        10001 "Success []" exampleText Connected ?g]
  note free_th = cooldown_per_component [of 10001 ?p exampleParse exampleNote "(100, Success [])"
        10001 "Success []" exampleText Connected initialGrammar]
  have 1: "generate exampleParse False (Some exampleNote) Connected 11000 (100, Success []) ?p =
     (?p\<lparr>panelError := Some (lit ''Please wait 2s between requests'')\<rparr>,
      [Shown OpInsights (lit ''Please wait 2s between requests'')], None)"
    using early_th [THEN conjunct1, THEN mp, OF early]
    by (simp only: e waitMessage_2000)
  have 2: "fetches (fst (snd (generate exampleParse False (Some exampleNote) Connected 13000
             (100, Success []) ?p))) = [Fetch OpInsights 13000]"
    using late_th [THEN conjunct2, THEN conjunct1, THEN mp, OF late] by (rule conjunct1)
  have 3: "fetches (generateContinuation (Some exampleNote) Connected exampleText 10001 (Success [])) =
             [Fetch OpContinuation 10001]"
    using busy_th [THEN conjunct2, THEN conjunct2, THEN conjunct2, THEN conjunct2, THEN conjunct1,
        THEN mp, OF t] .
  have 4: "checkGrammar Connected exampleText 10001 (Success []) ?g = (?g, [])"
    using busy_th [THEN conjunct2, THEN conjunct2, THEN conjunct2, THEN conjunct2, THEN conjunct2,
        THEN conjunct1, THEN mp, OF t20, THEN conjunct1, THEN mp, OF g1] .
  have 5: "fetches (snd (checkGrammar Connected exampleText 10001 (Success []) initialGrammar)) =
             [Fetch OpGrammar 10001]"
    using free_th [THEN conjunct2, THEN conjunct2, THEN conjunct2, THEN conjunct2, THEN conjunct2,
        THEN conjunct1, THEN mp, OF t20, THEN conjunct2, THEN mp, OF g2] by (rule conjunct1)
  from 1 2 3 4 5 show ?thesis by (intro conjI)
qed

text \<open>
  C5 as stated fails: a second summary request, made 200 ms after the first and
  after its answer, is sent as well, and so is a grammar check 1 ms after an insights
  request.
\<close>

theorem requests_within_cooldown_are_sent:
  "fetches (handleGenerateSummary (Some exampleNote) Connected 10000 10100 (Success (lit ''s''))) =
     [Fetch OpSummary 10000] \<and>
   fetches (handleGenerateSummary (Some exampleNote) Connected 10200 10300 (Success (lit ''s''))) =
     [Fetch OpSummary 10200] \<and>
   fetches (snd (runGenerate exampleParse False (Some exampleNote) Connected 10000 [] initialPanel)) =
     [Fetch OpInsights 10000] \<and>
   fetches (snd (checkGrammar Connected exampleText 10001 (Success []) initialGrammar)) =
     [Fetch OpGrammar 10001]"
proof -
  have i: "fetches (snd (runGenerate exampleParse False (Some exampleNote) Connected 10000 []
             initialPanel)) = [Fetch OpInsights 10000]"
    by (simp add: admit_def initialPanel_def COOLDOWN_MS_def fetches_def)
  have g: "fetches (snd (checkGrammar Connected exampleText 10001 (Success []) initialGrammar)) =
     [Fetch OpGrammar 10001]"
    by (simp add: checkGrammar_def trim_exampleText length_exampleText initialGrammar_def fetches_def)
  from summary_fetches summary_fetches i g show ?thesis by (intro conjI)
qed

end
